theory Spec2Isabelle
  imports Main "HOL-Library.Multiset"
begin

section \<open>Configuration and Python conventions\<close>

text \<open>
  The modules read their defaults from \<open>src/config/settings.py\<close>, which takes each of
  them from the environment (\<open>int(env_vars.get(...))\<close>). The values are therefore
  not fixed by the code and are carried as a record.
\<close>

record settings =
  CHUNK_SIZE :: int
  CHUNK_OVERLAP :: int
  MIN_CHUNK_SIZE :: int
  MAX_THREADS :: int
  BATCH_SIZE :: int
  UNKNOWN_VALUE :: string
  DATE_FORMAT :: string

text \<open>The defaults written in \<open>settings.py\<close>, used when the environment sets nothing.\<close>

definition default_settings :: settings where
  "default_settings =
     \<lparr>CHUNK_SIZE = 1000, CHUNK_OVERLAP = 100, MIN_CHUNK_SIZE = 200,
      MAX_THREADS = 5, BATCH_SIZE = 10,
      UNKNOWN_VALUE = ''unknown'', DATE_FORMAT = ''dd/mm/YYYY''\<rparr>"

datatype py_error = ValueError | TypeError | AttributeError | KeyError | BackendError

text \<open>
  \<open>x or default\<close> on an optional integer argument: \<open>None\<close> and \<open>0\<close> are both
  falsy, so both select the default.
\<close>

definition or_int :: "int option \<Rightarrow> int \<Rightarrow> int" where
  "or_int x d = (case x of None \<Rightarrow> d | Some v \<Rightarrow> if v = 0 then d else v)"

text \<open>\<open>x or default\<close> on an optional string: \<open>None\<close> and the empty string are falsy.\<close>

definition or_str :: "string option \<Rightarrow> string \<Rightarrow> string" where
  "or_str x d = (case x of None \<Rightarrow> d | Some v \<Rightarrow> if v = [] then d else v)"

text \<open>
  \<open>range(0, n, step)\<close>: a zero step raises \<open>ValueError\<close>, a negative step gives the
  empty range, a positive step gives \<open>0, step, 2 * step, ...\<close> below \<open>n\<close>.
\<close>

definition range_from_zero :: "nat \<Rightarrow> int \<Rightarrow> py_error + nat list" where
  "range_from_zero n step =
     (if step = 0 then Inl ValueError
      else if step < 0 then Inr []
      else Inr (map (\<lambda>k. k * nat step) [0..<(n + nat step - 1) div nat step]))"

section \<open>Batch executor (\<open>src/processing/parallel_processor.py\<close>)\<close>

text \<open>
  A call of \<open>process_func\<close> either returns a value (which may be Python's \<open>None\<close>) or
  raises an \<open>Exception\<close>; \<open>record_outcome\<close> is the \<open>try\<close>/\<open>except Exception\<close> around
  \<open>future.result()\<close>, which stores \<open>None\<close> for a raised call.
\<close>

definition record_outcome :: "'e + 'r option \<Rightarrow> 'r option" where
  "record_outcome out = (case out of Inl e \<Rightarrow> None | Inr v \<Rightarrow> v)"

text \<open>
  One batch. \<open>completion\<close> is the order in which \<open>as_completed\<close> yields the futures of
  this batch, as a list of the indices they were submitted under. The pairs are
  appended in that order, sorted by index (\<open>list.sort\<close> is stable, as \<open>sort_key\<close> is),
  and the results projected. \<open>ThreadPoolExecutor\<close> raises \<open>ValueError\<close> when it is
  given a worker count that is not positive.
\<close>

definition process_batch ::
  "nat list \<Rightarrow> int \<Rightarrow> 'c list \<Rightarrow> ('c \<Rightarrow> nat \<Rightarrow> 'e + 'r option) \<Rightarrow> py_error + 'r option list" where
  "process_batch completion max_workers batch process_func =
     (if min max_workers (int (length batch)) \<le> 0 then Inl ValueError
      else
        let batch_results =
              map (\<lambda>chunk_idx. (chunk_idx, record_outcome (process_func (batch ! chunk_idx) chunk_idx)))
                  completion
        in Inr (map snd (sort_key fst batch_results)))"

text \<open>
  The loop over the batch starts \<open>i\<close>. \<open>sched k n\<close> is the completion order of batch
  number \<open>k\<close>, which holds \<open>n\<close> chunks. An error raised while a batch is set up leaves
  the loop.
\<close>

fun batch_loop ::
  "(nat \<Rightarrow> nat \<Rightarrow> nat list) \<Rightarrow> int \<Rightarrow> nat \<Rightarrow> 'c list \<Rightarrow> ('c \<Rightarrow> nat \<Rightarrow> 'e + 'r option) \<Rightarrow>
   nat list \<Rightarrow> 'r option list \<Rightarrow> py_error + 'r option list" where
  "batch_loop sched max_workers batch_size chunks process_func [] results = Inr results"
| "batch_loop sched max_workers batch_size chunks process_func (i # starts) results =
     (let batch = take batch_size (drop i chunks)
      in case process_batch (sched (i div batch_size) (length batch)) max_workers batch process_func of
           Inl e \<Rightarrow> Inl e
         | Inr batch_results \<Rightarrow>
             batch_loop sched max_workers batch_size chunks process_func starts (results @ batch_results))"

definition process_chunks_parallel ::
  "settings \<Rightarrow> (nat \<Rightarrow> nat \<Rightarrow> nat list) \<Rightarrow> 'c list \<Rightarrow> ('c \<Rightarrow> nat \<Rightarrow> 'e + 'r option) \<Rightarrow>
   int option \<Rightarrow> int option \<Rightarrow> py_error + 'r option list" where
  "process_chunks_parallel cfg sched chunks process_func max_workers batch_size =
     (let max_workers = or_int max_workers (MAX_THREADS cfg);
          batch_size = or_int batch_size (BATCH_SIZE cfg)
      in case range_from_zero (length chunks) batch_size of
           Inl e \<Rightarrow> Inl e
         | Inr starts \<Rightarrow>
             batch_loop sched max_workers (nat batch_size) chunks process_func starts [])"

text \<open>
  A schedule is any family of completion orders: for every batch, some permutation of
  the indices submitted.
\<close>

definition valid_schedule :: "(nat \<Rightarrow> nat \<Rightarrow> nat list) \<Rightarrow> bool" where
  "valid_schedule sched = (\<forall>k n. mset (sched k n) = mset [0..<n])"

section \<open>Strings\<close>

text \<open>
  A Python \<open>str\<close> is modelled as a \<open>string\<close>, each \<open>char\<close> standing for one code point
  below 256; \<open>length\<close> is then Python's \<open>len\<close>. The character classes below are
  those of \<open>str.isspace\<close>, \<open>str.isdigit\<close>, \<open>str.isupper\<close> and \<open>str.lower\<close> on these
  code points.
\<close>

definition isspace :: "char \<Rightarrow> bool" where
  "isspace c \<longleftrightarrow>
     c \<in> set [CHR 0x09, CHR 0x0A, CHR 0x0B, CHR 0x0C, CHR 0x0D,
                CHR 0x1C, CHR 0x1D, CHR 0x1E, CHR 0x1F, CHR 0x20, CHR 0x85, CHR 0xA0]"

text \<open>\<open>text.split()\<close>: the maximal runs of characters that are not whitespace.\<close>

fun split_from :: "string \<Rightarrow> string \<Rightarrow> string list" where
  "split_from word [] = (if word = [] then [] else [word])"
| "split_from word (c # cs) =
     (if isspace c then (if word = [] then split_from [] cs else word # split_from [] cs)
      else split_from (word @ [c]) cs)"

definition split :: "string \<Rightarrow> string list" where
  "split text = split_from [] text"

text \<open>\<open>sep.join(items)\<close>.\<close>

fun join :: "string \<Rightarrow> string list \<Rightarrow> string" where
  "join sep [] = []"
| "join sep [x] = x"
| "join sep (x # y # ys) = x @ sep @ join sep (y # ys)"

text \<open>
  \<open>xs[i:j]\<close>: a negative bound counts from the end, and both bounds are clipped to
  the list.
\<close>

definition slice_bound :: "nat \<Rightarrow> int \<Rightarrow> nat" where
  "slice_bound n k = (if k < 0 then nat (max 0 (int n + k)) else min (nat k) n)"

definition slice :: "'a list \<Rightarrow> int \<Rightarrow> int \<Rightarrow> 'a list" where
  "slice xs i j =
     (let lo = slice_bound (length xs) i; hi = slice_bound (length xs) j
      in take (hi - lo) (drop lo xs))"

section \<open>Segmenter, word mode (\<open>src/chunking/text_chunker.py\<close>)\<close>

text \<open>
  The body of the \<open>for i in range(...)\<close> loop of \<open>chunk_text\<close>, over the list of window
  starts; \<open>chunks\<close> is the list built so far.
\<close>

fun chunk_loop :: "string list \<Rightarrow> int \<Rightarrow> int \<Rightarrow> nat list \<Rightarrow> string list \<Rightarrow> string list" where
  "chunk_loop words chunk_size min_chunk_size [] chunks = chunks"
| "chunk_loop words chunk_size min_chunk_size (i # starts) chunks =
     (let chunk_words = slice words (int i) (int i + chunk_size)
      in if int (length chunk_words) < min_chunk_size \<and> int i + chunk_size < int (length words)
         then chunk_loop words chunk_size min_chunk_size starts chunks
         else chunk_loop words chunk_size min_chunk_size starts (chunks @ [join '' '' chunk_words]))"

definition chunk_text ::
  "settings \<Rightarrow> string \<Rightarrow> int option \<Rightarrow> int option \<Rightarrow> int option \<Rightarrow> py_error + string list" where
  "chunk_text cfg text chunk_size chunk_overlap min_chunk_size =
     (let chunk_size = or_int chunk_size (CHUNK_SIZE cfg);
          chunk_overlap = or_int chunk_overlap (CHUNK_OVERLAP cfg);
          min_chunk_size = or_int min_chunk_size (MIN_CHUNK_SIZE cfg);
          words = split text
      in if int (length words) \<le> chunk_size then Inr [text]
         else case range_from_zero (length words) (chunk_size - chunk_overlap) of
                Inl e \<Rightarrow> Inl e
              | Inr starts \<Rightarrow> Inr (chunk_loop words chunk_size min_chunk_size starts []))"

section \<open>More string operations\<close>

definition isdigit :: "char \<Rightarrow> bool" where
  "isdigit c \<longleftrightarrow> c \<in> set ''0123456789'' \<or> c \<in> set [CHR 0xB2, CHR 0xB3, CHR 0xB9]"

definition uppercase :: string where
  "uppercase = ''ABCDEFGHIJKLMNOPQRSTUVWXYZ'' @
     [CHR 0xC0, CHR 0xC1, CHR 0xC2, CHR 0xC3, CHR 0xC4, CHR 0xC5, CHR 0xC6,
      CHR 0xC7, CHR 0xC8, CHR 0xC9, CHR 0xCA, CHR 0xCB, CHR 0xCC, CHR 0xCD,
      CHR 0xCE, CHR 0xCF, CHR 0xD0, CHR 0xD1, CHR 0xD2, CHR 0xD3, CHR 0xD4,
      CHR 0xD5, CHR 0xD6, CHR 0xD8, CHR 0xD9, CHR 0xDA, CHR 0xDB, CHR 0xDC,
      CHR 0xDD, CHR 0xDE]"

definition lowercase :: string where
  "lowercase = ''abcdefghijklmnopqrstuvwxyz'' @
     [CHR 0xE0, CHR 0xE1, CHR 0xE2, CHR 0xE3, CHR 0xE4, CHR 0xE5, CHR 0xE6,
      CHR 0xE7, CHR 0xE8, CHR 0xE9, CHR 0xEA, CHR 0xEB, CHR 0xEC, CHR 0xED,
      CHR 0xEE, CHR 0xEF, CHR 0xF0, CHR 0xF1, CHR 0xF2, CHR 0xF3, CHR 0xF4,
      CHR 0xF5, CHR 0xF6, CHR 0xF8, CHR 0xF9, CHR 0xFA, CHR 0xFB, CHR 0xFC,
      CHR 0xFD, CHR 0xFE]"

definition isupper :: "char \<Rightarrow> bool" where
  "isupper c \<longleftrightarrow> c \<in> set uppercase"

definition lower_char :: "char \<Rightarrow> char" where
  "lower_char c = (case map_of (zip uppercase lowercase) c of Some l \<Rightarrow> l | None \<Rightarrow> c)"

definition lower :: "string \<Rightarrow> string" where
  "lower s = map lower_char s"

text \<open>\<open>s.startswith(p)\<close> and the substring test \<open>p in s\<close>.\<close>

definition startswith :: "string \<Rightarrow> string \<Rightarrow> bool" where
  "startswith s p \<longleftrightarrow> take (length p) s = p"

fun str_in :: "string \<Rightarrow> string \<Rightarrow> bool" where
  "str_in p [] = (p = [])"
| "str_in p (c # cs) = (startswith (c # cs) p \<or> str_in p cs)"

text \<open>\<open>s.replace(old, new)\<close> for a single character \<open>old\<close>.\<close>

definition replace_char :: "char \<Rightarrow> string \<Rightarrow> string \<Rightarrow> string" where
  "replace_char old new s = concat (map (\<lambda>c. if c = old then new else [c]) s)"

text \<open>\<open>s.split('@')[-1]\<close>: what follows the last \<open>@\<close>, or all of \<open>s\<close> when it has none.\<close>

definition after_last_at :: "string \<Rightarrow> string" where
  "after_last_at s = rev (takeWhile (\<lambda>c. c \<noteq> CHR ''@'') (rev s))"

section \<open>Deduplicator (\<open>deduplicate_with_llm\<close> in \<open>src/merging/result_merger.py\<close>)\<close>

text \<open>
  What the dedup backend hands back is whatever \<open>json.loads\<close> made of the model's
  answer. A JSON object is the association list of its items (looked up with
  \<open>map_of\<close>); a number is an integer, of which the code only tests whether it is
  zero.
\<close>

datatype json =
    JNull
  | JBool bool
  | JNum int
  | JStr string
  | JArr "json list"
  | JObj "(string \<times> json) list"

text \<open>Truthiness, as \<open>if x\<close> and \<open>x and y\<close> test it.\<close>

fun truthy :: "json \<Rightarrow> bool" where
  "truthy JNull = False"
| "truthy (JBool b) = b"
| "truthy (JNum n) = (n \<noteq> 0)"
| "truthy (JStr s) = (s \<noteq> [])"
| "truthy (JArr xs) = (xs \<noteq> [])"
| "truthy (JObj kvs) = (kvs \<noteq> [])"

fun is_list :: "json \<Rightarrow> bool" where
  "is_list (JArr xs) = True"
| "is_list v = False"

fun is_dict :: "json \<Rightarrow> bool" where
  "is_dict (JObj kvs) = True"
| "is_dict v = False"

fun is_str :: "json \<Rightarrow> bool" where
  "is_str (JStr s) = True"
| "is_str v = False"

text \<open>
  \<open>key in x\<close> for a string \<open>key\<close>: a key of a dict, an element of a list, a substring
  of a string; any other operand is not iterable and raises \<open>TypeError\<close>.
\<close>

fun key_in :: "string \<Rightarrow> json \<Rightarrow> py_error + bool" where
  "key_in key (JObj kvs) = Inr (map_of kvs key \<noteq> None)"
| "key_in key (JArr xs) = Inr (JStr key \<in> set xs)"
| "key_in key (JStr s) = Inr (str_in key s)"
| "key_in key v = Inl TypeError"

text \<open>\<open>x[key]\<close> for a string \<open>key\<close>: only a dict can be indexed by a string.\<close>

fun getitem :: "json \<Rightarrow> string \<Rightarrow> py_error + json" where
  "getitem (JObj kvs) key = (case map_of kvs key of None \<Rightarrow> Inl KeyError | Some v \<Rightarrow> Inr v)"
| "getitem v key = Inl TypeError"

text \<open>\<open>x.lower()\<close>: only a string has the method.\<close>

fun lower_method :: "json \<Rightarrow> py_error + string" where
  "lower_method (JStr s) = Inr (lower s)"
| "lower_method v = Inl AttributeError"

text \<open>
  \<open>str(x)\<close>, which is also what an f-string applies. On a string it is the
  identity; on every other value it is Python's \<open>repr\<close>, which the code does not
  define and which is taken as the parameter \<open>py_repr\<close>.
\<close>

fun to_str :: "(json \<Rightarrow> string) \<Rightarrow> json \<Rightarrow> string" where
  "to_str py_repr (JStr s) = s"
| "to_str py_repr v = py_repr v"

text \<open>
  A value that is not a list: a string, an integer or \<open>None\<close>. These are the entries
  of the lists the reconciler builds and hands to the deduplicator; \<open>==\<close> on them is
  equality, and all of them can be put in a set. \<open>to_json\<close> is the same value seen
  as part of a JSON result.
\<close>

datatype scalar = Text string | Number int | NoneValue

fun to_json :: "scalar \<Rightarrow> json" where
  "to_json (Text s) = JStr s"
| "to_json (Number n) = JNum n"
| "to_json NoneValue = JNull"

text \<open>
  The loop \<open>for item in items: if item not in unique_items: unique_items.append(item)\<close>.
\<close>

fun unique_loop :: "'a list \<Rightarrow> 'a list \<Rightarrow> 'a list" where
  "unique_loop [] unique_items = unique_items"
| "unique_loop (item # items) unique_items =
     unique_loop items (if item \<in> set unique_items then unique_items else unique_items @ [item])"

text \<open>
  The fallback \<open>[x for x in items if not (x in seen or seen.add(x))]\<close>, with the set
  \<open>seen\<close> threaded through.
\<close>

fun seen_filter :: "'a list \<Rightarrow> 'a set \<Rightarrow> 'a list" where
  "seen_filter [] seen = []"
| "seen_filter (x # xs) seen =
     (if x \<in> seen then seen_filter xs seen else x # seen_filter xs (insert x seen))"

definition simple_dedup :: "scalar list \<Rightarrow> json list" where
  "simple_dedup items = map to_json (seen_filter items {})"

definition condition_fields :: "string list" where
  "condition_fields =
     [''medical_condition'', ''condition'', ''diagnosis'', ''procedure'', ''treatment'', ''event'']"

definition date_fields :: "string list" where
  "date_fields =
     [''date'', ''date_diagnosed'', ''date_started'', ''date_performed'', ''year'',
      ''date_of_diagnosis'', ''start_date'', ''date_of_procedure'', ''when'',
      ''date_procedure'', ''date_surgery'', ''date_event'', ''date_treatment'',
      ''diagnosed_on'', ''performed_on'', ''started_on'', ''occurred_on'']"

text \<open>
  \<open>for k in keys: if k in item and item[k]: found = item[k]; break\<close>, starting from
  the empty string. Any exception of \<open>in\<close> or of the subscript leaves the loop.
\<close>

fun first_present :: "json \<Rightarrow> string list \<Rightarrow> py_error + json" where
  "first_present item [] = Inr (JStr [])"
| "first_present item (k # ks) =
     (case key_in k item of
        Inl e \<Rightarrow> Inl e
      | Inr False \<Rightarrow> first_present item ks
      | Inr True \<Rightarrow>
          (case getitem item k of
             Inl e \<Rightarrow> Inl e
           | Inr v \<Rightarrow> if truthy v then Inr v else first_present item ks))"

text \<open>
  The date loop of the nested branch, whose test also asks that
  \<open>item[k].lower() != "unknown"\<close>.
\<close>

fun first_known_date :: "json \<Rightarrow> string list \<Rightarrow> py_error + json" where
  "first_known_date item [] = Inr (JStr [])"
| "first_known_date item (k # ks) =
     (case key_in k item of
        Inl e \<Rightarrow> Inl e
      | Inr False \<Rightarrow> first_known_date item ks
      | Inr True \<Rightarrow>
          (case getitem item k of
             Inl e \<Rightarrow> Inl e
           | Inr v \<Rightarrow>
               if \<not> truthy v then first_known_date item ks
               else (case lower_method v of
                       Inl e \<Rightarrow> Inl e
                     | Inr l \<Rightarrow> if l \<noteq> ''unknown'' then Inr v else first_known_date item ks)))"

definition format_condition :: "(json \<Rightarrow> string) \<Rightarrow> json \<Rightarrow> json \<Rightarrow> json" where
  "format_condition py_repr condition date =
     JStr (to_str py_repr condition @ '' ('' @ to_str py_repr date @ '')'')"

text \<open>One item of the nested branch (\<open>response[0]['deduplicated_items']\<close>).\<close>

definition convert_nested_item :: "(json \<Rightarrow> string) \<Rightarrow> string \<Rightarrow> json \<Rightarrow> py_error + json" where
  "convert_nested_item py_repr field_name item =
     (if field_name = ''medical_history'' then
        (case first_present item condition_fields of
           Inl e \<Rightarrow> Inl e
         | Inr condition \<Rightarrow>
             (case first_known_date item date_fields of
                Inl e \<Rightarrow> Inl e
              | Inr date \<Rightarrow>
                  if truthy condition \<and> truthy date
                  then Inr (format_condition py_repr condition date)
                  else Inr condition))
      else Inr (JStr (to_str py_repr item)))"

text \<open>One item of the structured branch (a list of dictionaries).\<close>

definition convert_structured_item :: "(json \<Rightarrow> string) \<Rightarrow> string \<Rightarrow> json \<Rightarrow> py_error + json" where
  "convert_structured_item py_repr field_name item =
     (if field_name = ''medical_history'' then
        (case first_present item condition_fields of
           Inl e \<Rightarrow> Inl e
         | Inr condition \<Rightarrow>
             (case first_present item date_fields of
                Inl e \<Rightarrow> Inl e
              | Inr date \<Rightarrow>
                  if truthy condition \<and> truthy date
                  then (case lower_method date of
                          Inl e \<Rightarrow> Inl e
                        | Inr l \<Rightarrow>
                            if l \<noteq> ''unknown''
                            then Inr (format_condition py_repr condition date)
                            else Inr condition)
                  else Inr condition))
      else Inr (JStr (to_str py_repr item)))"

text \<open>A \<open>for\<close> loop that appends one converted item per input item and stops at the first exception.\<close>

fun convert_all :: "(json \<Rightarrow> py_error + json) \<Rightarrow> json list \<Rightarrow> py_error + json list" where
  "convert_all f [] = Inr []"
| "convert_all f (item # items) =
     (case f item of
        Inl e \<Rightarrow> Inl e
      | Inr x \<Rightarrow> (case convert_all f items of Inl e \<Rightarrow> Inl e | Inr xs \<Rightarrow> Inr (x # xs)))"

text \<open>
  The \<open>else\<close> branch of the \<open>try\<close> body: the response does not hold the key
  \<open>deduplicated_items\<close>.
\<close>

definition other_formats ::
  "(json \<Rightarrow> string) \<Rightarrow> scalar list \<Rightarrow> string \<Rightarrow> json \<Rightarrow> py_error + json list" where
  "other_formats py_repr items field_name response =
     (let strings_or_fallback =
            (case response of
               JArr xs \<Rightarrow> if list_all is_str xs then Inr xs else Inr (simple_dedup items)
             | _ \<Rightarrow> Inr (simple_dedup items))
      in case response of
           JArr (JObj kvs # rest) \<Rightarrow>
             (if map_of kvs ''deduplicated_items'' \<noteq> None then
                (case map_of kvs ''deduplicated_items'' of
                   Some (JArr nested_items) \<Rightarrow>
                     convert_all (convert_nested_item py_repr field_name) nested_items
                 | _ \<Rightarrow> strings_or_fallback)
              else if list_all is_dict (JObj kvs # rest) then
                convert_all (convert_structured_item py_repr field_name) (JObj kvs # rest)
              else strings_or_fallback)
         | JArr xs \<Rightarrow>
             (if list_all is_dict xs then
                convert_all (convert_structured_item py_repr field_name) xs
              else strings_or_fallback)
         | _ \<Rightarrow> strings_or_fallback)"

text \<open>
  The body of the \<open>try\<close>, given what the backend call did. \<open>Inl\<close> is an exception
  raised inside the \<open>try\<close>.
\<close>

definition try_body ::
  "(json \<Rightarrow> string) \<Rightarrow> scalar list \<Rightarrow> string \<Rightarrow> py_error + json \<Rightarrow> py_error + json list" where
  "try_body py_repr items field_name outcome =
     (case outcome of
        Inl e \<Rightarrow> Inl e
      | Inr response \<Rightarrow>
          (case key_in ''deduplicated_items'' response of
             Inl e \<Rightarrow> Inl e
           | Inr True \<Rightarrow>
               (case getitem response ''deduplicated_items'' of
                  Inl e \<Rightarrow> Inl e
                | Inr deduplicated_items \<Rightarrow>
                    (case deduplicated_items of
                       JArr xs \<Rightarrow> Inr xs
                     | _ \<Rightarrow> Inr (simple_dedup items)))
           | Inr False \<Rightarrow> other_formats py_repr items field_name response))"

text \<open>
  \<open>backend field_name items\<close> is the call \<open>dudoxx_client.extract_fields(...)\<close>, whose
  prompts are built from \<open>field_name\<close> and \<open>items\<close>: it returns the parsed answer or
  raises. \<open>except Exception\<close> turns every exception of the \<open>try\<close> body into the
  fallback.
\<close>

definition deduplicate_with_llm ::
  "(json \<Rightarrow> string) \<Rightarrow> (string \<Rightarrow> scalar list \<Rightarrow> py_error + json) \<Rightarrow> scalar list \<Rightarrow> string \<Rightarrow> json list" where
  "deduplicate_with_llm py_repr backend items field_name =
     (if items = [] then []
      else if length items = 1 then map to_json items
      else
        let unique_items = unique_loop items []
        in if length unique_items = 1 then map to_json unique_items
           else (case try_body py_repr items field_name (backend field_name items) of
                   Inl e \<Rightarrow> simple_dedup items
                 | Inr deduplicated \<Rightarrow> deduplicated))"

text \<open>
  The shapes of a response that the code converts or returns: a record that holds
  an array under the key \<open>deduplicated_items\<close> (whatever other keys it has), an array
  whose first element is such a record, an array of records, an array of strings.
\<close>

fun holds_items_array :: "json \<Rightarrow> bool" where
  "holds_items_array (JObj kvs) =
     (case map_of kvs ''deduplicated_items'' of Some (JArr xs) \<Rightarrow> True | _ \<Rightarrow> False)"
| "holds_items_array v = False"

fun nested_items_array :: "json \<Rightarrow> bool" where
  "nested_items_array (JArr (x # xs)) = holds_items_array x"
| "nested_items_array v = False"

fun list_of_dicts :: "json \<Rightarrow> bool" where
  "list_of_dicts (JArr xs) = list_all is_dict xs"
| "list_of_dicts v = False"

fun flat_string_array :: "json \<Rightarrow> bool" where
  "flat_string_array (JArr xs) = list_all is_str xs"
| "flat_string_array v = False"

text \<open>
  The third shape the specification names: a record with a single key whose value
  is an array.
\<close>

fun single_key_array_record :: "json \<Rightarrow> bool" where
  "single_key_array_record (JObj [(k, JArr xs)]) = True"
| "single_key_array_record v = False"

definition spec_accepted_shape :: "json \<Rightarrow> bool" where
  "spec_accepted_shape r \<longleftrightarrow> flat_string_array r \<or> single_key_array_record r \<or> list_of_dicts r"

section \<open>Reconciler (\<open>merge_results\<close> in \<open>src/merging/result_merger.py\<close>)\<close>

text \<open>
  A field value of a segment result, as \<open>json.loads\<close> makes it: a list, or a value
  that is not a list. A segment result is \<open>None\<close> or a dict, given as the association
  list of its items.
\<close>

datatype field_value = Scalar scalar | Lst "scalar list"

type_synonym field_map = "(string \<times> field_value) list"

text \<open>\<open>str(n)\<close> for an integer, and \<open>str(x)\<close> for a value that is not a list.\<close>

definition digit_char :: "nat \<Rightarrow> char" where
  "digit_char d = ''0123456789'' ! d"

function str_nat :: "nat \<Rightarrow> string" where
  "str_nat n = (if n < 10 then [digit_char n] else str_nat (n div 10) @ [digit_char (n mod 10)])"
  by pat_completeness auto
termination
  by (relation "measure id") auto

declare str_nat.simps [simp del]

definition str_int :: "int \<Rightarrow> string" where
  "str_int i = (if i < 0 then ''-'' @ str_nat (nat (- i)) else str_nat (nat i))"

fun str_scalar :: "scalar \<Rightarrow> string" where
  "str_scalar (Text s) = s"
| "str_scalar (Number n) = str_int n"
| "str_scalar NoneValue = ''None''"

definition list_indicators :: "string list" where
  "list_indicators =
     [''history'', ''histories'', ''list'', ''lists'', ''items'', ''entries'',
      ''events'', ''experiences'', ''education'', ''work'', ''jobs'', ''skills'',
      ''qualifications'', ''certifications'', ''publications'', ''awards'',
      ''achievements'', ''projects'', ''responsibilities'', ''duties'',
      ''medications'', ''conditions'', ''symptoms'', ''diagnoses'', ''treatments'',
      ''procedures'', ''allergies'', ''immunizations'', ''vaccinations'',
      ''addresses'', ''phones'', ''emails'', ''contacts'', ''references'',
      ''hobbies'', ''interests'', ''languages'', ''memberships'', ''affiliations'']"

definition is_list_field :: "string \<Rightarrow> bool" where
  "is_list_field field \<longleftrightarrow> list_ex (\<lambda>indicator. str_in indicator (lower field)) list_indicators"

text \<open>\<open>' '.join(s.split())\<close>.\<close>

definition collapse_spaces :: "string \<Rightarrow> string" where
  "collapse_spaces s = join '' '' (split s)"

definition normalize_field :: "string \<Rightarrow> string \<Rightarrow> string" where
  "normalize_field value_str field =
     (if str_in ''phone'' (lower field) then filter isdigit value_str
      else if str_in ''email'' (lower field) then lower value_str
      else if str_in ''address'' (lower field) then
        collapse_spaces
          (replace_char CHR ''.'' '' '' (replace_char CHR '','' '' '' (collapse_spaces (lower value_str))))
      else if str_in ''name'' (lower field) then collapse_spaces (lower value_str)
      else collapse_spaces (lower value_str))"

text \<open>The score is built by successive \<open>score += n\<close>; \<open>of_bool\<close> is the guard of each.\<close>

definition format_quality_score :: "string \<Rightarrow> string \<Rightarrow> nat" where
  "format_quality_score value_str field =
     (if str_in ''phone'' (lower field) then
        of_bool (CHR ''('' \<in> set value_str \<and> CHR '')'' \<in> set value_str) + of_bool (CHR ''-'' \<in> set value_str)
      else if str_in ''email'' (lower field) then
        2 * of_bool (CHR ''@'' \<in> set value_str \<and> CHR ''.'' \<in> set (after_last_at value_str))
      else if str_in ''address'' (lower field) then
        of_bool (CHR '','' \<in> set value_str) + of_bool (list_ex isupper value_str)
      else if str_in ''name'' (lower field) then
        2 * of_bool (list_all (\<lambda>word. isupper (hd word)) (split value_str))
      else 0)
     + of_bool (list_ex isupper value_str)
     + of_bool (list_ex (\<lambda>c. c \<in> set value_str) '',.;:'')"

text \<open>
  The conflict between two different values of a field that is not a list field.
  The source tries four strategies in turn, each ending the iteration when it
  applies; \<open>conflict_strategy\<close> names the one that decides, with the two directions of
  the substring test apart. \<open>current\<close> is \<open>merged[field]\<close>, \<open>new\<close> is \<open>value\<close>.
\<close>

datatype strategy = KeepLonger | NewInsideCurrent | CurrentInsideNew | SameNormalized | KeepFirst

definition conflict_strategy :: "string \<Rightarrow> scalar \<Rightarrow> scalar \<Rightarrow> strategy" where
  "conflict_strategy field current new =
     (if length (str_scalar new) > length (str_scalar current) then KeepLonger
      else if str_in (str_scalar new) (str_scalar current) then NewInsideCurrent
      else if str_in (str_scalar current) (str_scalar new) then CurrentInsideNew
      else if normalize_field (str_scalar new) field = normalize_field (str_scalar current) field
      then SameNormalized
      else KeepFirst)"

text \<open>The value that \<open>merged[field]\<close> holds after the strategy that decides.\<close>

definition resolve_conflict :: "string \<Rightarrow> scalar \<Rightarrow> scalar \<Rightarrow> scalar" where
  "resolve_conflict field current new =
     (case conflict_strategy field current new of
        KeepLonger \<Rightarrow> new
      | NewInsideCurrent \<Rightarrow> current
      | CurrentInsideNew \<Rightarrow> new
      | SameNormalized \<Rightarrow>
          if format_quality_score (str_scalar new) field > format_quality_score (str_scalar current) field
          then new else current
      | KeepFirst \<Rightarrow> current)"

text \<open>
  The state of the loop. \<open>merged\<close> is created with exactly the keys \<open>fields\<close> and no
  key is added or removed afterwards, so it is carried as a total function and is
  cut down to \<open>fields\<close> at the end. \<open>list_fields\<close> is a dict used as an ordered set:
  the names in the order they were first marked.
\<close>

type_synonym merge_state = "(string \<Rightarrow> field_value) \<times> string list"

definition mark :: "string \<Rightarrow> string list \<Rightarrow> string list" where
  "mark field list_fields = (if field \<in> set list_fields then list_fields else list_fields @ [field])"

fun as_list :: "field_value \<Rightarrow> scalar list" where
  "as_list (Lst xs) = xs"
| "as_list (Scalar x) = [x]"

text \<open>
  The body of \<open>for field in fields\<close> for one result that holds \<open>field\<close>. The test
  \<open>isinstance(value, list) or isinstance(merged[field], list)\<close> fails exactly when
  neither is a list, the first case below. Segment results are taken to be
  separate objects, as the executor produces them, so that \<open>extend\<close> on
  \<open>merged[field]\<close> changes no list that is read later.
\<close>

definition merge_value :: "string \<Rightarrow> string \<Rightarrow> field_value \<Rightarrow> merge_state \<Rightarrow> merge_state" where
  "merge_value unknown_value field v state =
     (let (merged, list_fields) = state
      in if v = Scalar (Text unknown_value) then state
         else if merged field = Scalar (Text unknown_value) then (merged(field := v), list_fields)
         else if merged field = v then state
         else (case (merged field, v) of
                 (Scalar current, Scalar new) \<Rightarrow>
                   if field \<in> set list_fields \<or> is_list_field field then
                     (merged(field := Lst (if new \<in> set [current] then [current] else [current] @ [new])),
                      mark field list_fields)
                   else (merged(field := Scalar (resolve_conflict field current new)), list_fields)
               | (current, new) \<Rightarrow>
                   (merged(field := Lst (as_list current @ as_list new)), mark field list_fields)))"

definition merge_field :: "string \<Rightarrow> field_map \<Rightarrow> string \<Rightarrow> merge_state \<Rightarrow> merge_state" where
  "merge_field unknown_value result field state =
     (case map_of result field of
        None \<Rightarrow> state
      | Some v \<Rightarrow> merge_value unknown_value field v state)"

text \<open>
  The body of \<open>for result in chunk_results\<close>: a falsy result (\<open>None\<close> or the empty
  dict) and a result with an \<open>error\<close> key are skipped.
\<close>

definition merge_result :: "string \<Rightarrow> string list \<Rightarrow> field_map option \<Rightarrow> merge_state \<Rightarrow> merge_state" where
  "merge_result unknown_value fields' result state =
     (case result of
        None \<Rightarrow> state
      | Some r \<Rightarrow>
          if r = [] then state
          else if map_of r ''error'' \<noteq> None then state
          else fold (merge_field unknown_value r) fields' state)"

text \<open>
  The post-processing loop replaces \<open>merged[field]\<close>, for every name in \<open>list_fields\<close>
  whose value is a list, by its deduplication; each name is in \<open>list_fields\<close> once.
  The values of the record that is returned are given as JSON values.
\<close>

definition post_process ::
  "(json \<Rightarrow> string) \<Rightarrow> (string \<Rightarrow> scalar list \<Rightarrow> py_error + json) \<Rightarrow> merge_state \<Rightarrow> string \<Rightarrow> json" where
  "post_process py_repr backend state field =
     (let (merged, list_fields) = state
      in case merged field of
           Scalar x \<Rightarrow> to_json x
         | Lst items \<Rightarrow>
             if field \<in> set list_fields
             then JArr (deduplicate_with_llm py_repr backend items field)
             else JArr (map to_json items))"

definition merge_results ::
  "settings \<Rightarrow> (json \<Rightarrow> string) \<Rightarrow> (string \<Rightarrow> scalar list \<Rightarrow> py_error + json) \<Rightarrow>
   field_map option list \<Rightarrow> string list \<Rightarrow> string option \<Rightarrow> (string \<rightharpoonup> json)" where
  "merge_results cfg py_repr backend chunk_results fields' unknown_value =
     (let unknown_value = or_str unknown_value (UNKNOWN_VALUE cfg);
          state = fold (merge_result unknown_value fields') chunk_results
                       (\<lambda>field. Scalar (Text unknown_value), [])
      in (\<lambda>field. if field \<in> set fields'
                   then Some (post_process py_repr backend state field) else None))"

section \<open>Normalizer (\<open>validate_fields\<close> in \<open>src/utils/validators.py\<close>)\<close>








section \<open>Date normalizer (\<open>normalize_date\<close> in \<open>src/utils/validators.py\<close>)\<close>

text \<open>
  A \<open>datetime\<close> as \<open>strptime\<close> returns it for the formats below: the time of day is
  midnight, so only the calendar date is carried.
\<close>

record date =
  year :: nat
  month :: nat
  day :: nat

text \<open>\<open>s.replace(old, new)\<close>: the occurrences of \<open>old\<close> from the left, not overlapping.\<close>

function replace_str :: "string \<Rightarrow> string \<Rightarrow> string \<Rightarrow> string" where
  "replace_str old new [] = (if old = [] then new else [])"
| "replace_str old new (c # cs) =
     (if old = [] then new @ c # replace_str old new cs
      else if startswith (c # cs) old then new @ replace_str old new (drop (length old) (c # cs))
      else c # replace_str old new cs)"
  by pat_completeness auto
termination
  by (relation "measure (\<lambda>(old, new, s). length s)") auto

definition formats :: "string list" where
  "formats =
     [''%d/%m/%Y'', ''%m/%d/%Y'', ''%Y-%m-%d'',
      ''%d-%m-%Y'', ''%m-%d-%Y'',
      ''%d.%m.%Y'', ''%m.%d.%Y'',
      ''%B %d, %Y'', ''%d %B %Y'',
      ''%b %d, %Y'', ''%d %b %Y'',
      ''%d %b, %Y'', ''%b %d %Y'']"

text \<open>
  The loop \<open>for fmt in formats\<close>: the first format that \<open>strptime\<close> parses ends it
  (\<open>break\<close>), a \<open>ValueError\<close> moves on to the next format, and any other exception
  leaves the function. The result is \<open>parsed_date\<close>, \<open>None\<close> when no format parsed.
\<close>

fun try_formats ::
  "(string \<Rightarrow> string \<Rightarrow> py_error + date) \<Rightarrow> string \<Rightarrow> string list \<Rightarrow> py_error + date option" where
  "try_formats strptime date_str [] = Inr None"
| "try_formats strptime date_str (fmt # fmts) =
     (case strptime date_str fmt of
        Inr parsed_date \<Rightarrow> Inr (Some parsed_date)
      | Inl e \<Rightarrow> if e = ValueError then try_formats strptime date_str fmts else Inl e)"

text \<open>
  \<open>normalize_date\<close>, with the two library calls \<open>datetime.strptime\<close> and
  \<open>datetime.strftime\<close> as parameters. When no format parses, the source runs three
  regular-expression searches whose matches it does not use (the body of
  \<open>if match:\<close> is \<open>pass\<close>), so \<open>parsed_date\<close> stays \<open>None\<close> and the input is returned.
  A \<open>datetime\<close> is always truthy, so \<open>if parsed_date:\<close> tests for \<open>None\<close>.
\<close>

text \<open>The target format in \<open>strftime\<close> notation.\<close>

definition to_py_format :: "string \<Rightarrow> string" where
  "to_py_format date_format =
     replace_str ''YYYY'' ''%Y'' (replace_str ''mm'' ''%m'' (replace_str ''dd'' ''%d'' date_format))"

definition normalize_date ::
  "settings \<Rightarrow> (string \<Rightarrow> string \<Rightarrow> py_error + date) \<Rightarrow> (date \<Rightarrow> string \<Rightarrow> string) \<Rightarrow>
   string \<Rightarrow> string option \<Rightarrow> py_error + string" where
  "normalize_date cfg strptime strftime date_str date_format =
     (let date_format = or_str date_format (DATE_FORMAT cfg);
          py_format = to_py_format date_format
      in case try_formats strptime date_str formats of
           Inl e \<Rightarrow> Inl e
         | Inr None \<Rightarrow> Inr date_str
         | Inr (Some parsed_date) \<Rightarrow> Inr (strftime parsed_date py_format))"

section \<open>The library calls of \<open>normalize_date\<close>\<close>

text \<open>
  \<open>datetime.strptime\<close> as \<open>Lib/_strptime.py\<close> of the standard library has it, in the
  C locale, for formats built from the directives \<open>%d\<close>, \<open>%m\<close>, \<open>%Y\<close>, \<open>%B\<close>, \<open>%b\<close> and
  \<open>%%\<close>, each directive at most once; the thirteen formats of \<open>normalize_date\<close> are
  of this kind, and the other directives of the library are left out. The format is
  turned into a regular expression, which is matched at the start of the string,
  ignoring case; the directives are its named groups.
\<close>

definition upper_char :: "char \<Rightarrow> char" where
  "upper_char c = (case map_of (zip lowercase uppercase) c of Some u \<Rightarrow> u | None \<Rightarrow> c)"

text \<open>
  The pieces of the regular expression: one character out of a class, or \<open>\s+\<close>. A
  group is an alternation of sequences of such pieces.
\<close>

datatype atom = One string | Spaces

datatype token = Plain atom | Group char "atom list list"

definition ignore_case :: "char \<Rightarrow> atom" where
  "ignore_case c = One (if lower_char c = upper_char c then [c] else [lower_char c, upper_char c])"

definition f_month :: "string list" where
  "f_month =
     ['''', ''january'', ''february'', ''march'', ''april'', ''may'', ''june'', ''july'',
      ''august'', ''september'', ''october'', ''november'', ''december'']"

definition a_month :: "string list" where
  "a_month =
     ['''', ''jan'', ''feb'', ''mar'', ''apr'', ''may'', ''jun'', ''jul'',
      ''aug'', ''sep'', ''oct'', ''nov'', ''dec'']"

text \<open>
  \<open>__seqToRE\<close>: the names from the longest to the shortest
  (\<open>sorted(to_convert, key=len, reverse=True)\<close>, which keeps the order of names of
  equal length).
\<close>

definition seqToRE :: "string list \<Rightarrow> atom list list" where
  "seqToRE to_convert =
     map (map ignore_case) (rev (sort_key length (rev to_convert)))"

definition digits :: string where
  "digits = ''0123456789''"

definition nonzero_digits :: string where
  "nonzero_digits = ''123456789''"

text \<open>
  The regular expressions of the directives:
  \<open>d\<close> is \<open>3[0-1]|[1-2]\d|0[1-9]|[1-9]| [1-9]\<close>, \<open>m\<close> is \<open>1[0-2]|0[1-9]|[1-9]\<close>,
  \<open>Y\<close> is \<open>\d\d\d\d\<close>, \<open>B\<close> and \<open>b\<close> are the month names.
\<close>

definition directive :: "char \<Rightarrow> atom list list option" where
  "directive c =
     (if c = CHR ''d'' then
        Some [[One ''3'', One ''01''], [One ''12'', One digits], [One ''0'', One nonzero_digits],
              [One nonzero_digits], [One '' '', One nonzero_digits]]
      else if c = CHR ''m'' then
        Some [[One ''1'', One ''012''], [One ''0'', One nonzero_digits], [One nonzero_digits]]
      else if c = CHR ''Y'' then Some [[One digits, One digits, One digits, One digits]]
      else if c = CHR ''B'' then Some (seqToRE (tl f_month))
      else if c = CHR ''b'' then Some (seqToRE (tl a_month))
      else None)"

text \<open>
  \<open>TimeRE.pattern\<close>: a run of whitespace in the format becomes \<open>\s+\<close>, \<open>%\<close> and the
  character after it become the expression of the directive, every other character
  stands for itself. A \<open>%\<close> at the end of the format, or before a character that is
  none of the directives above, is a \<open>ValueError\<close>.
\<close>

fun pattern :: "string \<Rightarrow> py_error + token list" where
  "pattern [] = Inr []"
| "pattern (c # cs) =
     (if c = CHR ''%'' then
        (case cs of
           [] \<Rightarrow> Inl ValueError
         | x # rest \<Rightarrow>
             (case pattern rest of
                Inl e \<Rightarrow> Inl e
              | Inr tokens \<Rightarrow>
                  if x = CHR ''%'' then Inr (Plain (One ''%'') # tokens)
                  else (case directive x of
                          None \<Rightarrow> Inl ValueError
                        | Some alternatives \<Rightarrow> Inr (Group x alternatives # tokens))))
      else
        (case pattern cs of
           Inl e \<Rightarrow> Inl e
         | Inr tokens \<Rightarrow>
             if isspace c then
               (case tokens of
                  Plain Spaces # _ \<Rightarrow> Inr tokens
                | _ \<Rightarrow> Inr (Plain Spaces # tokens))
             else Inr (Plain (ignore_case c) # tokens)))"

text \<open>
  Matching, as a backtracking matcher does it: every function returns the matches
  it can find, in the order in which it tries them, each with the text matched and
  the rest of the string. \<open>\s+\<close> is greedy: the longest run first.
\<close>

fun match_atom :: "atom \<Rightarrow> string \<Rightarrow> (string \<times> string) list" where
  "match_atom (One cls) [] = []"
| "match_atom (One cls) (c # cs) = (if c \<in> set cls then [([c], cs)] else [])"
| "match_atom Spaces s =
     map (\<lambda>n. (take n s, drop n s)) (rev [1..<Suc (length (takeWhile isspace s))])"

fun match_atoms :: "atom list \<Rightarrow> string \<Rightarrow> (string \<times> string) list" where
  "match_atoms [] s = [([], s)]"
| "match_atoms (a # as) s =
     concat (map (\<lambda>(m, rest). map (\<lambda>(m', rest'). (m @ m', rest')) (match_atoms as rest))
                 (match_atom a s))"

definition match_alternatives :: "atom list list \<Rightarrow> string \<Rightarrow> (string \<times> string) list" where
  "match_alternatives alternatives s = concat (map (\<lambda>alternative. match_atoms alternative s) alternatives)"

fun match_tokens ::
  "token list \<Rightarrow> string \<Rightarrow> (char \<times> string) list \<Rightarrow> ((char \<times> string) list \<times> string) list" where
  "match_tokens [] s groups = [(groups, s)]"
| "match_tokens (Plain a # tokens) s groups =
     concat (map (\<lambda>(m, rest). match_tokens tokens rest groups) (match_atom a s))"
| "match_tokens (Group name alternatives # tokens) s groups =
     concat (map (\<lambda>(m, rest). match_tokens tokens rest (groups @ [(name, m)]))
                 (match_alternatives alternatives s))"

text \<open>\<open>int(s)\<close> for a string of digits, with a space before them or not.\<close>

definition digit_value :: "char \<Rightarrow> nat" where
  "digit_value c = length (takeWhile (\<lambda>d. d \<noteq> c) digits)"

definition int_of_str :: "string \<Rightarrow> nat" where
  "int_of_str s = fold (\<lambda>c n. 10 * n + digit_value c) (dropWhile isspace s) 0"

text \<open>\<open>names.index(s.lower())\<close>.\<close>

definition index_of :: "string list \<Rightarrow> string \<Rightarrow> nat" where
  "index_of names s = length (takeWhile (\<lambda>name. name \<noteq> lower s) names)"

text \<open>The dates for which the constructor of \<open>datetime\<close> does not raise \<open>ValueError\<close>.\<close>

definition isleap :: "nat \<Rightarrow> bool" where
  "isleap y \<longleftrightarrow> y mod 4 = 0 \<and> (y mod 100 \<noteq> 0 \<or> y mod 400 = 0)"

definition days_in_month :: "nat \<Rightarrow> nat \<Rightarrow> nat" where
  "days_in_month y m =
     (if m = 2 then (if isleap y then 29 else 28)
      else if m \<in> {4, 6, 9, 11} then 30 else 31)"

definition valid_date :: "nat \<Rightarrow> nat \<Rightarrow> nat \<Rightarrow> bool" where
  "valid_date y m d \<longleftrightarrow> 1 \<le> y \<and> y \<le> 9999 \<and> 1 \<le> m \<and> m \<le> 12 \<and> 1 \<le> d \<and> d \<le> days_in_month y m"

text \<open>
  \<open>_strptime\<close>: the first match must reach the end of the string. The year is 1900
  when the format has none, month and day are 1.
\<close>

definition group_value :: "(char \<times> string) list \<Rightarrow> date" where
  "group_value groups =
     \<lparr>year = (case map_of groups CHR ''Y'' of Some s \<Rightarrow> int_of_str s | None \<Rightarrow> 1900),
      month = (case map_of groups CHR ''m'' of Some s \<Rightarrow> int_of_str s
               | None \<Rightarrow> (case map_of groups CHR ''B'' of Some s \<Rightarrow> index_of f_month s
                          | None \<Rightarrow> (case map_of groups CHR ''b'' of Some s \<Rightarrow> index_of a_month s
                                     | None \<Rightarrow> 1))),
      day = (case map_of groups CHR ''d'' of Some s \<Rightarrow> int_of_str s | None \<Rightarrow> 1)\<rparr>"

definition datetime_strptime :: "string \<Rightarrow> string \<Rightarrow> py_error + date" where
  "datetime_strptime data_string format =
     (case pattern format of
        Inl e \<Rightarrow> Inl e
      | Inr tokens \<Rightarrow>
          (case match_tokens tokens data_string [] of
             [] \<Rightarrow> Inl ValueError
           | (groups, rest) # _ \<Rightarrow>
               if rest \<noteq> [] then Inl ValueError
               else let d = group_value groups
                    in if valid_date (year d) (month d) (day d) then Inr d else Inl ValueError))"

text \<open>
  \<open>datetime.strftime\<close> for the directives that \<open>py_format\<close> is made of: \<open>%d\<close> and \<open>%m\<close>
  are two digits, \<open>%Y\<close> is four digits. Any other directive is left as it is written.
\<close>

definition zero_pad :: "nat \<Rightarrow> nat \<Rightarrow> string" where
  "zero_pad width n = replicate (width - length (str_nat n)) CHR ''0'' @ str_nat n"

fun datetime_strftime :: "date \<Rightarrow> string \<Rightarrow> string" where
  "datetime_strftime d [] = []"
| "datetime_strftime d [c] = [c]"
| "datetime_strftime d (c # x # cs) =
     (if c = CHR ''%'' then
        (if x = CHR ''d'' then zero_pad 2 (day d)
         else if x = CHR ''m'' then zero_pad 2 (month d)
         else if x = CHR ''Y'' then zero_pad 4 (year d)
         else if x = CHR ''%'' then ''%''
         else [c, x]) @ datetime_strftime d cs
      else c # datetime_strftime d (x # cs))"

section \<open>Sample collaborators\<close>

text \<open>
  Stand-ins for the two things the code leaves to its environment, used where a
  statement is evaluated on a concrete input: a \<open>repr\<close>, a dedup backend whose call
  raises, and one that answers with a two-key record.
\<close>

definition sample_repr :: "json \<Rightarrow> string" where
  "sample_repr v = ''<value>''"

definition failing_backend :: "string \<Rightarrow> scalar list \<Rightarrow> py_error + json" where
  "failing_backend field_name items = Inl BackendError"

definition two_key_record :: json where
  "two_key_record = JObj [(''deduplicated_items'', JArr [JStr ''x'']), (''note'', JStr ''merged'')]"

definition two_key_backend :: "string \<Rightarrow> scalar list \<Rightarrow> py_error + json" where
  "two_key_backend field_name items = Inr two_key_record"

section \<open>Properties of the batch executor\<close>

lemma sort_indexed_results:
  assumes "mset p = mset [0..<n]"
  shows "sort_key fst (map (\<lambda>i. (i, g i)) p) = map (\<lambda>i. (i, g i)) [0..<n]"
proof -
  let ?xs = "map (\<lambda>i. (i, g i)) p"
  let ?ys = "sort_key fst ?xs"
  have "mset ?ys = mset ?xs"
    by simp
  then have "mset (map fst ?ys) = mset (map fst ?xs)"
    by (simp only: mset_map)
  also have "map fst ?xs = p"
    by (simp add: comp_def)
  finally have "mset (map fst ?ys) = mset [0..<n]"
    using assms by simp
  moreover have "sorted (map fst ?ys)"
    by (rule sorted_sort_key)
  ultimately have keys: "map fst ?ys = [0..<n]"
    using properties_for_sort [of "map fst ?ys" "[0..<n]"] by simp
  have "\<And>y. y \<in> set ?ys \<Longrightarrow> (fst y, g (fst y)) = y"
    by auto
  then have "map (\<lambda>y. (fst y, g (fst y))) ?ys = ?ys"
    by (rule map_idI)
  then have "map (\<lambda>i. (i, g i)) (map fst ?ys) = ?ys"
    by (simp add: comp_def)
  with keys show ?thesis
    by simp
qed

lemma process_batch_in_order:
  assumes "mset completion = mset [0..<length batch]" and "0 < max_workers" and "batch \<noteq> []"
  shows "process_batch completion max_workers batch process_func =
         Inr (map (\<lambda>j. record_outcome (process_func (batch ! j) j)) [0..<length batch])"
proof -
  have "\<not> min max_workers (int (length batch)) \<le> 0"
    using assms(2,3) by (cases batch) (auto simp: min_def)
  then show ?thesis
    using sort_indexed_results [OF assms(1), of "\<lambda>j. record_outcome (process_func (batch ! j) j)"]
    by (simp add: process_batch_def comp_def)
qed

lemma batch_contents:
  assumes "i < length chunks" and "0 < B" and "i mod B = 0"
  shows "map (\<lambda>j. record_outcome (pf (take B (drop i chunks) ! j) j)) [0..<length (take B (drop i chunks))]
       = map (\<lambda>k. record_outcome (pf (chunks ! k) (k mod B))) [i..<min (i + B) (length chunks)]"
proof -
  let ?batch = "take B (drop i chunks)"
  let ?len = "length ?batch"
  have len: "?len = min B (length chunks - i)" by simp
  have elt: "record_outcome (pf (chunks ! (j + i)) ((j + i) mod B)) = record_outcome (pf (?batch ! j) j)"
    if "j < ?len" for j
  proof -
    from that len have "j < B" and "j < length chunks - i" by simp_all
    then have nth: "?batch ! j = chunks ! (j + i)"
      by (simp add: add.commute)
    have "(j + i) mod B = (j + i mod B) mod B"
      by (rule mod_add_right_eq [symmetric])
    also have "\<dots> = j"
      using assms(3) \<open>j < B\<close> by simp
    finally show ?thesis
      using nth by simp
  qed
  have "map (\<lambda>k. record_outcome (pf (chunks ! k) (k mod B))) [i..<?len + i]
      = map (\<lambda>k. record_outcome (pf (chunks ! k) (k mod B))) (map (\<lambda>j. j + i) [0..<?len])"
    by (simp only: map_add_upt)
  also have "\<dots> = map (\<lambda>j. record_outcome (pf (?batch ! j) j)) [0..<?len]"
    using elt by (simp add: comp_def del: length_take)
  finally have "map (\<lambda>j. record_outcome (pf (?batch ! j) j)) [0..<?len]
      = map (\<lambda>k. record_outcome (pf (chunks ! k) (k mod B))) [i..<?len + i]"
    by simp
  moreover have "?len + i = min (i + B) (length chunks)"
    using assms(1) by (auto simp: min_def)
  ultimately show ?thesis by (simp only:)
qed

lemma batch_loop_consecutive:
  assumes "valid_schedule sched" and "0 < mw" and "0 < B"
    and "length chunks \<le> m * B" and "a \<le> m" and "0 < m \<Longrightarrow> (m - 1) * B < length chunks"
  shows "batch_loop sched mw B chunks pf (map (\<lambda>k. k * B) [a..<m]) acc
       = Inr (acc @ map (\<lambda>k. record_outcome (pf (chunks ! k) (k mod B))) [a * B..<length chunks])"
  using assms(5)
proof (induction "m - a" arbitrary: a acc)
  case 0
  then have "a = m" by simp
  then show ?case using assms(4) by simp
next
  case (Suc d)
  then have am: "a < m" by simp
  let ?i = "a * B"
  let ?batch = "take B (drop ?i chunks)"
  let ?g = "\<lambda>k. record_outcome (pf (chunks ! k) (k mod B))"
  have "a \<le> m - 1" using am by simp
  then have "a * B \<le> (m - 1) * B" by (rule mult_le_mono1)
  moreover have "(m - 1) * B < length chunks" using assms(6) am by simp
  ultimately have i: "?i < length chunks" by (rule le_less_trans)
  then have ne: "?batch \<noteq> []" using assms(3) by simp
  have perm: "mset (sched (?i div B) (length ?batch)) = mset [0..<length ?batch]"
    using assms(1) by (simp add: valid_schedule_def)
  have pb: "process_batch (sched (?i div B) (length ?batch)) mw ?batch pf
          = Inr (map ?g [?i..<min (?i + B) (length chunks)])"
    using process_batch_in_order [OF perm assms(2) ne, of pf] batch_contents [OF i assms(3), of pf]
    by simp
  have split: "map ?g [?i..<min (?i + B) (length chunks)] @ map ?g [Suc a * B..<length chunks]
             = map ?g [?i..<length chunks]"
  proof (cases "?i + B \<le> length chunks")
    case True
    then have "[?i..<length chunks] = [?i..<?i + B] @ [?i + B..<length chunks]"
      by (metis le_add1 le_Suc_ex upt_add_eq_append)
    then show ?thesis using True by (simp add: min_def add.commute)
  next
    case False
    then show ?thesis by (simp add: min_def add.commute)
  qed
  have "d = m - Suc a" and "Suc a \<le> m" using Suc.hyps(2) am by simp_all
  from Suc.hyps(1) [OF this]
  have IH: "batch_loop sched mw B chunks pf (map (\<lambda>k. k * B) [Suc a..<m]) acc'
       = Inr (acc' @ map ?g [Suc a * B..<length chunks])" for acc' .
  have "[a..<m] = a # [Suc a..<m]" using am by (simp add: upt_conv_Cons)
  then show ?case
    using pb IH split by (simp add: Let_def del: length_take take_eq_Nil)
qed

lemma number_of_batches:
  fixes n B :: nat
  assumes "0 < B"
  defines "m \<equiv> (n + B - 1) div B"
  shows "n \<le> m * B" and "0 < m \<Longrightarrow> (m - 1) * B < n"
proof -
  have "n + B - 1 = m * B + (n + B - 1) mod B"
    by (simp add: m_def)
  moreover have "(n + B - 1) mod B < B"
    using assms(1) by simp
  ultimately have bounds: "n + B - 1 < m * B + B" "m * B \<le> n + B - 1"
    by linarith+
  from bounds(1) show "n \<le> m * B" by linarith
  assume "0 < m"
  then have "m * B = (m - 1) * B + B"
    by (cases m) simp_all
  with bounds(2) assms(1) show "(m - 1) * B < n" by linarith
qed

lemma process_chunks_parallel_eq:
  assumes "valid_schedule sched"
    and "0 < or_int max_workers (MAX_THREADS cfg)"
    and "0 < or_int batch_size (BATCH_SIZE cfg)"
  shows "process_chunks_parallel cfg sched chunks process_func max_workers batch_size =
         Inr (map (\<lambda>i. record_outcome
                        (process_func (chunks ! i) (i mod nat (or_int batch_size (BATCH_SIZE cfg)))))
                  [0..<length chunks])"
proof -
  let ?B = "nat (or_int batch_size (BATCH_SIZE cfg))"
  let ?m = "(length chunks + ?B - 1) div ?B"
  have B: "0 < ?B" using assms(3) by simp
  have "batch_loop sched (or_int max_workers (MAX_THREADS cfg)) ?B chunks process_func
          (map (\<lambda>k. k * ?B) [0..<?m]) []
        = Inr ([] @ map (\<lambda>i. record_outcome (process_func (chunks ! i) (i mod ?B)))
                       [0 * ?B..<length chunks])"
    by (rule batch_loop_consecutive [OF assms(1,2) B number_of_batches(1) [OF B] _
          number_of_batches(2) [OF B]]) simp_all
  then show ?thesis
    using assms(3) by (simp add: process_chunks_parallel_def range_from_zero_def Let_def)
qed

text \<open>
  Claim C1. With a positive batch size and a positive worker count, and for every
  order in which the futures of each batch complete, \<open>process_chunks_parallel\<close>
  returns a list as long as the list of chunks, whose \<open>i\<close>-th element is the outcome
  recorded for the \<open>i\<close>-th chunk (submitted under its index within its batch).
\<close>

theorem process_chunks_parallel_preserves_order:
  assumes "valid_schedule sched"
    and "0 < or_int max_workers (MAX_THREADS cfg)"
    and "0 < or_int batch_size (BATCH_SIZE cfg)"
  shows "\<exists>results.
           process_chunks_parallel cfg sched chunks process_func max_workers batch_size = Inr results \<and>
           length results = length chunks \<and>
           (\<forall>i < length chunks.
              results ! i =
              record_outcome (process_func (chunks ! i) (i mod nat (or_int batch_size (BATCH_SIZE cfg)))))"
  using process_chunks_parallel_eq [OF assms, of chunks process_func] by simp

theorem process_chunks_parallel_preserves_order_witness:
  "valid_schedule (\<lambda>k n. rev [0..<n]) \<and>
   0 < or_int (Some 2) (MAX_THREADS default_settings) \<and>
   0 < or_int (Some 2) (BATCH_SIZE default_settings) \<and>
   (\<exists>results.
      process_chunks_parallel default_settings (\<lambda>k n. rev [0..<n]) [''a'', ''b'', ''c'']
        (\<lambda>c idx. (Inr (Some (c, idx)) :: unit + (string \<times> nat) option)) (Some 2) (Some 2) = Inr results \<and>
      length results = 3 \<and>
      results ! 0 = Some (''a'', 0) \<and> results ! 1 = Some (''b'', 1) \<and> results ! 2 = Some (''c'', 0))"
proof -
  let ?pf = "\<lambda>c idx. (Inr (Some (c, idx)) :: unit + (string \<times> nat) option)"
  let ?chunks = "[''a'', ''b'', ''c'']"
  have sched: "valid_schedule (\<lambda>k n. rev [0..<n])"
    by (simp add: valid_schedule_def)
  have mw: "0 < or_int (Some 2) (MAX_THREADS default_settings)"
    and bs: "0 < or_int (Some 2) (BATCH_SIZE default_settings)"
    by (simp_all add: or_int_def)
  have B: "nat (or_int (Some 2) (BATCH_SIZE default_settings)) = 2"
    by (simp add: or_int_def)
  from process_chunks_parallel_preserves_order [OF sched mw bs, of ?chunks ?pf]
  obtain results where r: "process_chunks_parallel default_settings (\<lambda>k n. rev [0..<n]) ?chunks ?pf (Some 2) (Some 2) = Inr results"
    and len: "length results = length ?chunks"
    and el: "\<And>i. i < length ?chunks \<Longrightarrow> results ! i = record_outcome (?pf (?chunks ! i) (i mod 2))"
    unfolding B by blast
  have e0: "results ! 0 = Some (''a'', 0)"
    using el [of 0] by (simp add: record_outcome_def)
  have e1: "results ! 1 = Some (''b'', 1)"
    using el [of 1] by (simp add: record_outcome_def)
  have e2: "results ! 2 = Some (''c'', 0)"
    using el [of 2] by (simp add: record_outcome_def)
  have l3: "length results = 3"
    using len by simp
  from r l3 e0 e1 e2 have "\<exists>results.
      process_chunks_parallel default_settings (\<lambda>k n. rev [0..<n]) ?chunks ?pf (Some 2) (Some 2) = Inr results \<and>
      length results = 3 \<and>
      results ! 0 = Some (''a'', 0) \<and> results ! 1 = Some (''b'', 1) \<and> results ! 2 = Some (''c'', 0)"
    by blast
  with sched mw bs show ?thesis by blast
qed

text \<open>
  Claim C5. A chunk whose call raises is recorded as \<open>None\<close> at its own position;
  every other chunk, in the same batch and in later ones, still gets the value its
  call returned, and the call as a whole returns a list: no exception of a chunk
  reaches the caller.
\<close>

theorem process_chunks_parallel_isolates_failures:
  assumes "valid_schedule sched"
    and "0 < or_int max_workers (MAX_THREADS cfg)"
    and "0 < or_int batch_size (BATCH_SIZE cfg)"
  shows "\<exists>results.
           process_chunks_parallel cfg sched chunks process_func max_workers batch_size = Inr results \<and>
           length results = length chunks \<and>
           (\<forall>i < length chunks.
              case process_func (chunks ! i) (i mod nat (or_int batch_size (BATCH_SIZE cfg))) of
                Inl e \<Rightarrow> results ! i = None
              | Inr v \<Rightarrow> results ! i = v)"
  using process_chunks_parallel_eq [OF assms, of chunks process_func]
  by (auto simp: record_outcome_def split: sum.splits)

theorem process_chunks_parallel_isolates_failures_witness:
  "valid_schedule (\<lambda>k n. rev [0..<n]) \<and>
   0 < or_int None (MAX_THREADS default_settings) \<and>
   0 < or_int (Some 2) (BATCH_SIZE default_settings) \<and>
   (\<exists>results.
      process_chunks_parallel default_settings (\<lambda>k n. rev [0..<n]) [''a'', ''bad'', ''c'', ''d'']
        (\<lambda>c idx. if c = ''bad'' then Inl ''boom'' else Inr (Some c)) None (Some 2) = Inr results \<and>
      length results = 4 \<and>
      results ! 0 = Some ''a'' \<and> results ! 1 = None \<and> results ! 2 = Some ''c'' \<and> results ! 3 = Some ''d'')"
proof -
  let ?pf = "\<lambda>c (idx::nat). if c = ''bad'' then (Inl ''boom'' :: string + string option) else Inr (Some c)"
  let ?chunks = "[''a'', ''bad'', ''c'', ''d'']"
  have sched: "valid_schedule (\<lambda>k n. rev [0..<n])"
    by (simp add: valid_schedule_def)
  have mw: "0 < or_int None (MAX_THREADS default_settings)"
    and bs: "0 < or_int (Some 2) (BATCH_SIZE default_settings)"
    by (simp_all add: or_int_def default_settings_def)
  have B: "nat (or_int (Some 2) (BATCH_SIZE default_settings)) = 2"
    by (simp add: or_int_def)
  from process_chunks_parallel_isolates_failures [OF sched mw bs, of ?chunks ?pf]
  obtain results where r: "process_chunks_parallel default_settings (\<lambda>k n. rev [0..<n]) ?chunks ?pf None (Some 2) = Inr results"
    and len: "length results = length ?chunks"
    and el: "\<And>i. i < length ?chunks \<Longrightarrow>
               (case ?pf (?chunks ! i) (i mod 2) of Inl e \<Rightarrow> results ! i = None | Inr v \<Rightarrow> results ! i = v)"
    unfolding B by blast
  have e0: "results ! 0 = Some ''a''"
    using el [of 0] by simp
  have e1: "results ! 1 = None"
    using el [of 1] by simp
  have e2: "results ! 2 = Some ''c''"
    using el [of 2] by simp
  have e3: "results ! 3 = Some ''d''"
    using el [of 3] by simp
  have l4: "length results = 4"
    using len by simp
  from r l4 e0 e1 e2 e3 have "\<exists>results.
      process_chunks_parallel default_settings (\<lambda>k n. rev [0..<n]) ?chunks ?pf None (Some 2) = Inr results \<and>
      length results = 4 \<and>
      results ! 0 = Some ''a'' \<and> results ! 1 = None \<and> results ! 2 = Some ''c'' \<and> results ! 3 = Some ''d''"
    by blast
  with sched mw bs show ?thesis by blast
qed

section \<open>Properties of the word-mode segmenter\<close>

lemma chunk_text_raises_iff:
  "(\<exists>e. chunk_text cfg text chunk_size chunk_overlap min_chunk_size = Inl e) \<longleftrightarrow>
   or_int chunk_size (CHUNK_SIZE cfg) < int (length (split text)) \<and>
   or_int chunk_overlap (CHUNK_OVERLAP cfg) = or_int chunk_size (CHUNK_SIZE cfg)"
  by (simp add: chunk_text_def range_from_zero_def Let_def not_le)

text \<open>
  Claim C6, evaluated on the code. Seven words, windows of four words advancing by
  two, minimum size four: the window \<open>e f g\<close> has three words and is followed by the
  window \<open>g\<close>, so it is shorter than the minimum and is not the last one, and it is
  kept all the same. The test \<open>i + chunk_size < len(words)\<close> lets every window that
  reaches the end of the text through, not only the last.
\<close>

theorem chunk_text_keeps_short_inner_window:
  "chunk_text default_settings ''a b c d e f g'' (Some 4) (Some 2) (Some 4) =
     Inr [''a b c d'', ''c d e f'', ''e f g'', ''g'']"
  by (simp add: chunk_text_def default_settings_def or_int_def split_def isspace_def
      range_from_zero_def slice_def slice_bound_def Let_def)

text \<open>
  Claim C7 as stated fails: with a target size of zero the call returns the whole
  text as one segment (the default size is taken), and with a negative target size
  it returns the empty list; neither raises.
\<close>

theorem chunk_text_nonpositive_size_counterexample:
  "chunk_text default_settings ''a b'' (Some 0) None None = Inr [''a b''] \<and>
   chunk_text default_settings ''a b'' (Some (- 1)) None None = Inr []"
  by (simp add: chunk_text_def default_settings_def or_int_def split_def isspace_def
      range_from_zero_def Let_def)

text \<open>
  Claim C7 as amended. A \<open>chunk_size\<close> argument of zero is not rejected:
  \<open>chunk_size or settings.CHUNK_SIZE\<close> replaces it by the configured default, so the
  call does exactly what it does when the argument is omitted, and with a positive
  default that is larger than the overlap in force it returns a segment list. The
  amendment says nothing about a negative target size.
\<close>

theorem chunk_text_zero_size_selects_default:
  "chunk_text cfg text (Some 0) chunk_overlap min_chunk_size =
     chunk_text cfg text None chunk_overlap min_chunk_size \<and>
   (0 < CHUNK_SIZE cfg \<and> or_int chunk_overlap (CHUNK_OVERLAP cfg) < CHUNK_SIZE cfg \<longrightarrow>
      (\<exists>chunks. chunk_text cfg text (Some 0) chunk_overlap min_chunk_size = Inr chunks))"
proof -
  have same: "chunk_text cfg text (Some 0) chunk_overlap min_chunk_size =
              chunk_text cfg text None chunk_overlap min_chunk_size"
    by (simp add: chunk_text_def or_int_def)
  have "\<exists>chunks. chunk_text cfg text (Some 0) chunk_overlap min_chunk_size = Inr chunks"
    if "0 < CHUNK_SIZE cfg" and "or_int chunk_overlap (CHUNK_OVERLAP cfg) < CHUNK_SIZE cfg"
  proof -
    have size: "or_int (Some 0) (CHUNK_SIZE cfg) = CHUNK_SIZE cfg"
      by (simp add: or_int_def)
    have "\<not> (\<exists>e. chunk_text cfg text (Some 0) chunk_overlap min_chunk_size = Inl e)"
      using that(2) unfolding chunk_text_raises_iff size by simp
    then show ?thesis
      by (cases "chunk_text cfg text (Some 0) chunk_overlap min_chunk_size") auto
  qed
  with same show ?thesis
    by blast
qed

theorem chunk_text_zero_size_selects_default_witness:
  "0 < CHUNK_SIZE default_settings \<and>
   or_int (Some 1) (CHUNK_OVERLAP default_settings) < CHUNK_SIZE default_settings \<and>
   chunk_text default_settings ''a b'' (Some 0) (Some 1) None =
     chunk_text default_settings ''a b'' None (Some 1) None \<and>
   chunk_text default_settings ''a b'' (Some 0) (Some 1) None = Inr [''a b'']"
proof -
  have positive: "0 < CHUNK_SIZE default_settings"
    by (simp add: default_settings_def)
  have overlap: "or_int (Some 1) (CHUNK_OVERLAP default_settings) < CHUNK_SIZE default_settings"
    by (simp add: or_int_def default_settings_def)
  from chunk_text_zero_size_selects_default [of default_settings "''a b''" "Some 1" None]
    positive overlap
  obtain chunks where same: "chunk_text default_settings ''a b'' (Some 0) (Some 1) None =
                              chunk_text default_settings ''a b'' None (Some 1) None"
    and returned: "chunk_text default_settings ''a b'' (Some 0) (Some 1) None = Inr chunks"
    by blast
  have "chunk_text default_settings ''a b'' None (Some 1) None = Inr [''a b'']"
    by (simp add: chunk_text_def default_settings_def or_int_def split_def isspace_def Let_def)
  with same have "chunk_text default_settings ''a b'' (Some 0) (Some 1) None = Inr [''a b'']"
    by simp
  with positive overlap same show ?thesis
    by blast
qed

text \<open>
  Claim C10 as stated fails: the arguments are not the values the loop uses. With
  \<open>chunk_size = 0\<close> both arguments of the first call are equal, and in the second
  call the overlap is the greater, and the text has more than zero words; yet zero
  selects the defaults, and the call returns the whole text as one segment.
\<close>

theorem chunk_text_not_total_counterexample:
  "0 < length (split ''a b c'') \<and>
   chunk_text default_settings ''a b c'' (Some 0) (Some 0) None = Inr [''a b c''] \<and>
   chunk_text default_settings ''a b c'' (Some 0) (Some 5) None = Inr [''a b c'']"
  by (simp add: chunk_text_def default_settings_def or_int_def split_def isspace_def Let_def)

text \<open>
  Claim C10 as amended, on the values in force after \<open>x or default\<close> (an omitted or
  zero argument is replaced by the configured default). For a text with more words
  than the chunk size in force, an overlap in force equal to the chunk size makes
  \<open>chunk_text\<close> raise \<open>ValueError\<close>, and an overlap greater than the chunk size makes
  it return the empty list.
\<close>

theorem chunk_text_not_total:
  assumes "or_int chunk_size (CHUNK_SIZE cfg) < int (length (split text))"
  shows "(or_int chunk_overlap (CHUNK_OVERLAP cfg) = or_int chunk_size (CHUNK_SIZE cfg) \<longrightarrow>
            chunk_text cfg text chunk_size chunk_overlap min_chunk_size = Inl ValueError) \<and>
         (or_int chunk_size (CHUNK_SIZE cfg) < or_int chunk_overlap (CHUNK_OVERLAP cfg) \<longrightarrow>
            chunk_text cfg text chunk_size chunk_overlap min_chunk_size = Inr [])"
  using assms by (simp add: chunk_text_def range_from_zero_def Let_def)

theorem chunk_text_not_total_witness:
  "or_int (Some 2) (CHUNK_SIZE default_settings) < int (length (split ''a b c'')) \<and>
   or_int (Some 2) (CHUNK_OVERLAP default_settings) = or_int (Some 2) (CHUNK_SIZE default_settings) \<and>
   chunk_text default_settings ''a b c'' (Some 2) (Some 2) None = Inl ValueError \<and>
   or_int (Some 2) (CHUNK_SIZE default_settings) < or_int (Some 3) (CHUNK_OVERLAP default_settings) \<and>
   chunk_text default_settings ''a b c'' (Some 2) (Some 3) None = Inr []"
proof -
  have words: "or_int (Some 2) (CHUNK_SIZE default_settings) < int (length (split ''a b c''))"
    by (simp add: or_int_def split_def isspace_def)
  have same: "or_int (Some 2) (CHUNK_OVERLAP default_settings) =
              or_int (Some 2) (CHUNK_SIZE default_settings)"
    by (simp add: or_int_def)
  have more: "or_int (Some 2) (CHUNK_SIZE default_settings) <
              or_int (Some 3) (CHUNK_OVERLAP default_settings)"
    by (simp add: or_int_def)
  from chunk_text_not_total [OF words, of "Some 2" None] same
  have raised: "chunk_text default_settings ''a b c'' (Some 2) (Some 2) None = Inl ValueError"
    by blast
  from chunk_text_not_total [OF words, of "Some 3" None] more
  have empty: "chunk_text default_settings ''a b c'' (Some 2) (Some 3) None = Inr []"
    by blast
  from words same raised more empty show ?thesis
    by blast
qed

section \<open>Properties of the reconciler and of the validated record\<close>

subsection \<open>The states of the final record\<close>














subsection \<open>The phone example\<close>

lemma phone_not_error:
  assumes "str_in ''phone'' (lower field)"
  shows "field \<noteq> ''error''"
proof
  assume "field = ''error''"
  with assms have "str_in ''phone'' (lower ''error'')"
    by simp
  then show False
    by (simp add: lower_def lower_char_def uppercase_def lowercase_def startswith_def)
qed

lemma normalize_phone:
  assumes "str_in ''phone'' (lower field)"
  shows "normalize_field value_str field = filter isdigit value_str"
  using assms by (simp add: normalize_field_def)

lemma phone_digits:
  assumes "str_in ''phone'' (lower field)"
  shows "normalize_field ''(555) 123-4567'' field = ''5551234567''"
    and "normalize_field ''555-123-4567'' field = ''5551234567''"
  unfolding normalize_phone [OF assms] by (simp_all add: isdigit_def)

lemma phone_scores:
  assumes "str_in ''phone'' (lower field)"
  shows "format_quality_score ''(555) 123-4567'' field = 2"
    and "format_quality_score ''555-123-4567'' field = 1"
  using assms by (simp_all add: format_quality_score_def isupper_def uppercase_def)

lemma phone_strategy_better_first:
  assumes "str_in ''phone'' (lower field)"
  shows "conflict_strategy field (Text ''(555) 123-4567'') (Text ''555-123-4567'') = SameNormalized"
proof -
  have not_in: "\<not> str_in ''555-123-4567'' ''(555) 123-4567''"
    by (simp add: startswith_def)
  have not_in': "\<not> str_in ''(555) 123-4567'' ''555-123-4567''"
    by (simp add: startswith_def)
  show ?thesis
    unfolding conflict_strategy_def str_scalar.simps phone_digits [OF assms]
    using not_in not_in' by simp
qed

lemma phone_strategy_better_second:
  "conflict_strategy field (Text ''555-123-4567'') (Text ''(555) 123-4567'') = KeepLonger"
  by (simp add: conflict_strategy_def)

lemma merge_two_scalars:
  assumes "\<not> is_list_field field" and "field \<noteq> ''error''"
    and "a \<noteq> Text (or_str unknown_value (UNKNOWN_VALUE cfg))"
    and "b \<noteq> Text (or_str unknown_value (UNKNOWN_VALUE cfg))" and "a \<noteq> b"
  shows "merge_results cfg py_repr backend [Some [(field, Scalar a)], Some [(field, Scalar b)]] [field]
           unknown_value field = Some (to_json (resolve_conflict field a b))"
  using assms
  by (simp add: merge_results_def merge_result_def merge_field_def merge_value_def post_process_def
      Let_def)

text \<open>
  Claim C3. For a field whose name contains \<open>phone\<close> and no list keyword, and a
  sentinel that is neither of the two values: both values normalise to the same
  digit string, \<open>"(555) 123-4567"\<close> has the higher formatting score, and merging the
  segment results \<open>{field: "(555) 123-4567"}\<close> and \<open>{field: "555-123-4567"}\<close> gives
  \<open>"(555) 123-4567"\<close> in either order. When the better value comes first the
  strategy that decides is the comparison of the normalised values, with the score
  as the tie-break; when it comes second it is also the strictly longer value, and
  the first strategy keeps it.
\<close>

theorem merge_phone_conflict:
  assumes "str_in ''phone'' (lower field)" and "\<not> is_list_field field"
    and "or_str unknown_value (UNKNOWN_VALUE cfg) \<noteq> ''(555) 123-4567''"
    and "or_str unknown_value (UNKNOWN_VALUE cfg) \<noteq> ''555-123-4567''"
  shows "normalize_field ''(555) 123-4567'' field = ''5551234567'' \<and>
         normalize_field ''555-123-4567'' field = ''5551234567'' \<and>
         format_quality_score ''555-123-4567'' field < format_quality_score ''(555) 123-4567'' field \<and>
         conflict_strategy field (Text ''(555) 123-4567'') (Text ''555-123-4567'') = SameNormalized \<and>
         conflict_strategy field (Text ''555-123-4567'') (Text ''(555) 123-4567'') = KeepLonger \<and>
         merge_results cfg py_repr backend
           [Some [(field, Scalar (Text ''(555) 123-4567''))], Some [(field, Scalar (Text ''555-123-4567''))]]
           [field] unknown_value field = Some (JStr ''(555) 123-4567'') \<and>
         merge_results cfg py_repr backend
           [Some [(field, Scalar (Text ''555-123-4567''))], Some [(field, Scalar (Text ''(555) 123-4567''))]]
           [field] unknown_value field = Some (JStr ''(555) 123-4567'')"
proof -
  note ne = phone_not_error [OF assms(1)]
  note digits = phone_digits [OF assms(1)]
  note scores = phone_scores [OF assms(1)]
  note s1 = phone_strategy_better_first [OF assms(1)]
  note s2 = phone_strategy_better_second [of field]
  have score: "format_quality_score ''555-123-4567'' field < format_quality_score ''(555) 123-4567'' field"
    unfolding scores by simp
  have r1: "resolve_conflict field (Text ''(555) 123-4567'') (Text ''555-123-4567'') = Text ''(555) 123-4567''"
    unfolding resolve_conflict_def s1 str_scalar.simps scores by simp
  have r2: "resolve_conflict field (Text ''555-123-4567'') (Text ''(555) 123-4567'') = Text ''(555) 123-4567''"
    unfolding resolve_conflict_def s2 by simp
  have first: "merge_results cfg py_repr backend
           [Some [(field, Scalar (Text ''(555) 123-4567''))], Some [(field, Scalar (Text ''555-123-4567''))]]
           [field] unknown_value field = Some (JStr ''(555) 123-4567'')"
    using merge_two_scalars [OF assms(2) ne, of "Text ''(555) 123-4567''" unknown_value cfg
        "Text ''555-123-4567''" py_repr backend] assms(3,4)
    unfolding r1 by simp
  have second: "merge_results cfg py_repr backend
           [Some [(field, Scalar (Text ''555-123-4567''))], Some [(field, Scalar (Text ''(555) 123-4567''))]]
           [field] unknown_value field = Some (JStr ''(555) 123-4567'')"
    using merge_two_scalars [OF assms(2) ne, of "Text ''555-123-4567''" unknown_value cfg
        "Text ''(555) 123-4567''" py_repr backend] assms(3,4)
    unfolding r2 by simp
  from digits score s1 s2 first second show ?thesis
    by blast
qed

theorem merge_phone_conflict_witness:
  "str_in ''phone'' (lower ''Phone'') \<and> \<not> is_list_field ''Phone'' \<and>
   or_str None (UNKNOWN_VALUE default_settings) \<noteq> ''(555) 123-4567'' \<and>
   or_str None (UNKNOWN_VALUE default_settings) \<noteq> ''555-123-4567'' \<and>
   normalize_field ''(555) 123-4567'' ''Phone'' = normalize_field ''555-123-4567'' ''Phone'' \<and>
   format_quality_score ''555-123-4567'' ''Phone'' < format_quality_score ''(555) 123-4567'' ''Phone'' \<and>
   merge_results default_settings sample_repr failing_backend
     [Some [(''Phone'', Scalar (Text ''(555) 123-4567''))], Some [(''Phone'', Scalar (Text ''555-123-4567''))]]
     [''Phone''] None ''Phone'' = Some (JStr ''(555) 123-4567'') \<and>
   merge_results default_settings sample_repr failing_backend
     [Some [(''Phone'', Scalar (Text ''555-123-4567''))], Some [(''Phone'', Scalar (Text ''(555) 123-4567''))]]
     [''Phone''] None ''Phone'' = Some (JStr ''(555) 123-4567'')"
proof -
  have low: "lower ''Phone'' = ''phone''"
    by (simp add: lower_def lower_char_def uppercase_def lowercase_def)
  have phone: "str_in ''phone'' (lower ''Phone'')"
    unfolding low by (simp add: startswith_def)
  have scalar: "\<not> is_list_field ''Phone''"
    unfolding is_list_field_def low by (simp add: list_indicators_def startswith_def)
  have u1: "or_str None (UNKNOWN_VALUE default_settings) \<noteq> ''(555) 123-4567''"
    and u2: "or_str None (UNKNOWN_VALUE default_settings) \<noteq> ''555-123-4567''"
    by (simp_all add: or_str_def default_settings_def)
  from merge_phone_conflict
         [where field = "''Phone''" and unknown_value = None and cfg = default_settings
            and py_repr = sample_repr and backend = failing_backend, OF phone scalar u1 u2]
    phone scalar u1 u2
  show ?thesis
    by simp
qed

subsection \<open>Empty and absent results\<close>

lemma fold_merge_result_filter:
  "fold (merge_result u fs) (filter (\<lambda>r. r \<noteq> None \<and> r \<noteq> Some []) rs) state =
   fold (merge_result u fs) rs state"
  by (induction rs arbitrary: state) (auto simp: merge_result_def)

text \<open>
  Claim C4. Merging a sequence of segment results gives the same record as merging
  the sequence without its absent (\<open>None\<close>) and empty (\<open>{}\<close>) results.
\<close>

theorem merge_results_ignores_empty:
  "merge_results cfg py_repr backend chunk_results fields' unknown_value =
   merge_results cfg py_repr backend
     (filter (\<lambda>result. result \<noteq> None \<and> result \<noteq> Some []) chunk_results) fields' unknown_value"
  by (simp only: merge_results_def fold_merge_result_filter)

section \<open>Properties of the deduplicator\<close>

lemma remdups_snoc: "remdups (ys @ [x]) = filter (\<lambda>y. y \<noteq> x) (remdups ys) @ [x]"
  by (induction ys) auto

lemma first_seen_Cons:
  "rev (remdups (rev (x # xs))) = x # filter (\<lambda>y. y \<noteq> x) (rev (remdups (rev xs)))"
  by (simp add: remdups_snoc rev_filter)

lemma seen_filter_first_seen:
  "seen_filter xs seen = filter (\<lambda>y. y \<notin> seen) (rev (remdups (rev xs)))"
proof (induction xs arbitrary: seen)
  case Nil
  show ?case by simp
next
  case (Cons x xs)
  let ?fs = "rev (remdups (rev xs))"
  have cons: "rev (remdups (rev (x # xs))) = x # filter (\<lambda>y. y \<noteq> x) ?fs"
    by (rule first_seen_Cons)
  show ?case
  proof (cases "x \<in> seen")
    case True
    have "filter (\<lambda>y. y \<notin> seen) (filter (\<lambda>y. y \<noteq> x) ?fs) = filter (\<lambda>y. y \<notin> seen) ?fs"
      using True by (auto intro: filter_cong)
    with True Cons.IH [of seen] show ?thesis
      unfolding cons by simp
  next
    case False
    have "filter (\<lambda>y. y \<notin> seen) (filter (\<lambda>y. y \<noteq> x) ?fs)
        = filter (\<lambda>y. y \<notin> insert x seen) ?fs"
      by (auto intro: filter_cong)
    with False Cons.IH [of "insert x seen"] show ?thesis
      unfolding cons by simp
  qed
qed

lemma unique_loop_first_seen:
  "unique_loop xs acc = acc @ filter (\<lambda>y. y \<notin> set acc) (rev (remdups (rev xs)))"
proof (induction xs arbitrary: acc)
  case Nil
  show ?case by simp
next
  case (Cons x xs)
  let ?fs = "rev (remdups (rev xs))"
  have cons: "rev (remdups (rev (x # xs))) = x # filter (\<lambda>y. y \<noteq> x) ?fs"
    by (rule first_seen_Cons)
  show ?case
  proof (cases "x \<in> set acc")
    case True
    have "filter (\<lambda>y. y \<notin> set acc) (filter (\<lambda>y. y \<noteq> x) ?fs) = filter (\<lambda>y. y \<notin> set acc) ?fs"
      using True by (auto intro: filter_cong)
    with True Cons.IH [of acc] show ?thesis
      unfolding cons by simp
  next
    case False
    have "filter (\<lambda>y. y \<notin> set acc) (filter (\<lambda>y. y \<noteq> x) ?fs)
        = filter (\<lambda>y. y \<notin> set (acc @ [x])) ?fs"
      by (auto intro: filter_cong)
    with False Cons.IH [of "acc @ [x]"] show ?thesis
      unfolding cons by simp
  qed
qed

lemma simple_dedup_first_seen: "simple_dedup items = map to_json (rev (remdups (rev items)))"
  by (simp add: simple_dedup_def seen_filter_first_seen)

lemma unique_items_first_seen: "unique_loop items [] = rev (remdups (rev items))"
  by (simp add: unique_loop_first_seen)

lemma other_formats_unaccepted:
  assumes "\<not> nested_items_array r" and "\<not> list_of_dicts r" and "\<not> flat_string_array r"
  shows "other_formats py_repr items field_name r = Inr (simple_dedup items)"
proof (cases r)
  case (JArr xs)
  show ?thesis
  proof (cases xs)
    case Nil
    with JArr assms(2) show ?thesis by simp
  next
    case (Cons x rest)
    show ?thesis
    proof (cases x)
      case (JObj kvs)
      with JArr Cons assms show ?thesis
        by (auto simp: other_formats_def split: option.splits json.splits)
    qed (use JArr Cons assms in \<open>simp_all add: other_formats_def\<close>)
  qed
qed (simp_all add: other_formats_def)

lemma try_body_unaccepted:
  assumes "\<not> holds_items_array r" and "\<not> nested_items_array r"
    and "\<not> list_of_dicts r" and "\<not> flat_string_array r"
  shows "try_body py_repr items field_name (Inr r) = Inr (simple_dedup items) \<or>
         (\<exists>e. try_body py_repr items field_name (Inr r) = Inl e)"
proof (cases "key_in ''deduplicated_items'' r")
  case (Inl e)
  then show ?thesis by (simp add: try_body_def)
next
  case (Inr present)
  show ?thesis
  proof (cases present)
    case False
    with Inr other_formats_unaccepted [OF assms(2,3,4)] show ?thesis
      by (simp add: try_body_def)
  next
    case True
    show ?thesis
    proof (cases "getitem r ''deduplicated_items''")
      case (Inl e)
      with Inr True show ?thesis by (simp add: try_body_def)
    next
      case (Inr v)
      then obtain kvs where r: "r = JObj kvs" and v: "map_of kvs ''deduplicated_items'' = Some v"
        by (cases r) (auto split: option.splits)
      with assms(1) have "\<not> is_list v"
        by (cases v) simp_all
      then have fallback: "(case v of JArr xs \<Rightarrow> Inr xs | _ \<Rightarrow> Inr (simple_dedup items)) =
                           (Inr (simple_dedup items) :: py_error + json list)"
        by (cases v) simp_all
      have "try_body py_repr items field_name (Inr r) =
            (case v of JArr xs \<Rightarrow> Inr xs | _ \<Rightarrow> Inr (simple_dedup items))"
        using r v by (simp add: try_body_def)
      then have "try_body py_repr items field_name (Inr r) = Inr (simple_dedup items)"
        using fallback by (rule trans)
      then show ?thesis
        by blast
    qed
  qed
qed

text \<open>
  Claim C8 as amended. For a list with at least two distinct entries, whenever the
  backend call raises, or answers with a shape that the code neither converts nor
  returns (a record holding an array under \<open>deduplicated_items\<close>, an array whose
  first element is such a record, an array of records, an array of strings),
  \<open>deduplicate_with_llm\<close> returns the input list with the later occurrences of every
  entry removed. The function returns a list in every case: no exception reaches
  the caller.
\<close>

theorem deduplicate_with_llm_fallback:
  assumes "2 \<le> card (set items)"
    and "(\<exists>e. backend field_name items = Inl e) \<or>
         (\<exists>r. backend field_name items = Inr r \<and> \<not> holds_items_array r \<and>
              \<not> nested_items_array r \<and> \<not> list_of_dicts r \<and> \<not> flat_string_array r)"
  shows "deduplicate_with_llm py_repr backend items field_name =
         map to_json (rev (remdups (rev items)))"
proof -
  have len: "length (unique_loop items []) = card (set items)"
    by (simp add: unique_items_first_seen length_remdups_card_conv)
  have "card (set items) \<le> length items"
    by (rule card_length)
  with assms(1) len have guards: "items \<noteq> []" "length items \<noteq> 1" "length (unique_loop items []) \<noteq> 1"
    by auto
  have "try_body py_repr items field_name (backend field_name items) = Inr (simple_dedup items) \<or>
        (\<exists>e. try_body py_repr items field_name (backend field_name items) = Inl e)"
    using assms(2)
  proof (elim disjE exE conjE)
    fix e assume "backend field_name items = Inl e"
    then show ?thesis by (simp add: try_body_def)
  next
    fix r assume "backend field_name items = Inr r" and "\<not> holds_items_array r"
      and "\<not> nested_items_array r" and "\<not> list_of_dicts r" and "\<not> flat_string_array r"
    then show ?thesis
      using try_body_unaccepted [of r py_repr items field_name] by simp
  qed
  then have "(case try_body py_repr items field_name (backend field_name items) of
                Inl e \<Rightarrow> simple_dedup items | Inr deduplicated \<Rightarrow> deduplicated) = simple_dedup items"
    by auto
  with guards show ?thesis
    by (simp add: deduplicate_with_llm_def Let_def simple_dedup_first_seen)
qed

theorem deduplicate_with_llm_fallback_witness:
  "2 \<le> card (set [Text ''b'', Text ''a'', Text ''b'']) \<and>
   failing_backend ''skills'' [Text ''b'', Text ''a'', Text ''b''] = Inl BackendError \<and>
   deduplicate_with_llm sample_repr failing_backend [Text ''b'', Text ''a'', Text ''b''] ''skills'' = [JStr ''b'', JStr ''a'']"
proof -
  have distinct2: "2 \<le> card (set [Text ''b'', Text ''a'', Text ''b''])"
    by (simp add: card_insert_if)
  have raised: "failing_backend ''skills'' [Text ''b'', Text ''a'', Text ''b''] = Inl BackendError"
    by (simp add: failing_backend_def)
  then have "(\<exists>e. failing_backend ''skills'' [Text ''b'', Text ''a'', Text ''b''] = Inl e) \<or>
         (\<exists>r. failing_backend ''skills'' [Text ''b'', Text ''a'', Text ''b''] = Inr r \<and> \<not> holds_items_array r \<and>
              \<not> nested_items_array r \<and> \<not> list_of_dicts r \<and> \<not> flat_string_array r)"
    by blast
  from deduplicate_with_llm_fallback
         [where items = "[Text ''b'', Text ''a'', Text ''b'']" and backend = failing_backend
            and field_name = "''skills''" and py_repr = sample_repr, OF distinct2 this]
  have "deduplicate_with_llm sample_repr failing_backend [Text ''b'', Text ''a'', Text ''b''] ''skills'' = [JStr ''b'', JStr ''a'']"
    by simp
  with distinct2 raised show ?thesis
    by blast
qed

text \<open>
  Claim C8 as stated fails. A record with two keys is none of the shapes the
  specification lists (array of strings, single-key record wrapping an array, list
  of dictionaries), yet the code looks only for the key \<open>deduplicated_items\<close> and
  returns the array found under it instead of the fallback.
\<close>

theorem deduplicate_with_llm_fallback_counterexample:
  "2 \<le> card (set [Text ''a'', Text ''b'']) \<and>
   two_key_backend ''skills'' [Text ''a'', Text ''b''] = Inr two_key_record \<and>
   \<not> spec_accepted_shape two_key_record \<and>
   deduplicate_with_llm sample_repr two_key_backend [Text ''a'', Text ''b''] ''skills'' = [JStr ''x''] \<and>
   [JStr ''x''] \<noteq> map to_json (rev (remdups (rev [Text ''a'', Text ''b''])))"
  by (simp add: two_key_backend_def two_key_record_def spec_accepted_shape_def
      deduplicate_with_llm_def try_body_def Let_def card_insert_if)

section \<open>Properties of the date normalizer\<close>

lemma try_formats_first:
  assumes "\<forall>f \<in> set before. strptime date_str f = Inl ValueError"
    and "strptime date_str fmt = Inr parsed"
  shows "try_formats strptime date_str (before @ fmt # after) = Inr (Some parsed)"
  using assms by (induction before) simp_all

lemma try_formats_none:
  assumes "\<forall>f \<in> set fmts. strptime date_str f = Inl ValueError"
  shows "try_formats strptime date_str fmts = Inr None"
  using assms by (induction fmts) simp_all

lemma try_formats_returns:
  assumes "\<forall>f \<in> set fmts. \<forall>e. strptime date_str f = Inl e \<longrightarrow> e = ValueError"
  shows "\<exists>parsed. try_formats strptime date_str fmts = Inr parsed"
  using assms
proof (induction fmts)
  case Nil
  then show ?case by simp
next
  case (Cons fmt fmts)
  then show ?case
    by (cases "strptime date_str fmt") auto
qed

text \<open>The library model raises nothing but \<open>ValueError\<close>.\<close>

lemma pattern_raises:
  assumes "pattern format = Inl e"
  shows "e = ValueError"
  using assms
  by (induction format arbitrary: e rule: pattern.induct)
     (auto split: if_splits list.splits sum.splits option.splits token.splits atom.splits)

lemma datetime_strptime_raises:
  assumes "datetime_strptime data_string format = Inl e"
  shows "e = ValueError"
  using assms pattern_raises [of format]
  by (auto simp: datetime_strptime_def Let_def split: sum.splits list.splits if_splits)

lemma to_py_format_default: "to_py_format ''dd/mm/YYYY'' = ''%d/%m/%Y''"
  by code_simp

lemma strptime_long_time_ago:
  "\<forall>f \<in> set formats. datetime_strptime ''a long time ago'' f = Inl ValueError"
  by code_simp

lemma strptime_Feb_before:
  "\<forall>f \<in> set (take 9 formats). datetime_strptime ''Feb 9, 1949'' f = Inl ValueError"
  by code_simp

lemma strptime_Feb:
  "datetime_strptime ''Feb 9, 1949'' ''%b %d, %Y'' = Inr \<lparr>year = 1949, month = 2, day = 9\<rparr>"
  by code_simp

lemma strftime_Feb:
  "datetime_strftime \<lparr>year = 1949, month = 2, day = 9\<rparr> ''%d/%m/%Y'' = ''09/02/1949''"
  by code_simp

lemma formats_tenth: "formats = take 9 formats @ ''%b %d, %Y'' # drop 10 formats"
  by (simp add: formats_def)

text \<open>
  Claim C9. Let \<open>strptime\<close> raise nothing but \<open>ValueError\<close> on the string, as the
  library does on every string. Then \<open>normalize_date\<close> returns and does not raise;
  when some candidate format parses the string and all formats before it fail, the
  result is the date parsed by that format, written in the target format; when no
  candidate format parses, the result is the string itself. With the library calls
  as modelled above and the target format \<open>dd/mm/YYYY\<close>, \<open>"Feb 9, 1949"\<close> gives
  \<open>"09/02/1949"\<close> and \<open>"a long time ago"\<close> is returned unchanged.
\<close>

theorem normalize_date_first_format:
  assumes "\<forall>fmt \<in> set formats. \<forall>e. strptime date_str fmt = Inl e \<longrightarrow> e = ValueError"
  shows "(\<exists>out. normalize_date cfg strptime strftime date_str date_format = Inr out) \<and>
         (\<forall>before fmt after parsed.
            formats = before @ fmt # after \<and>
            (\<forall>f \<in> set before. strptime date_str f = Inl ValueError) \<and>
            strptime date_str fmt = Inr parsed \<longrightarrow>
            normalize_date cfg strptime strftime date_str date_format =
              Inr (strftime parsed (to_py_format (or_str date_format (DATE_FORMAT cfg))))) \<and>
         ((\<forall>fmt \<in> set formats. strptime date_str fmt = Inl ValueError) \<longrightarrow>
            normalize_date cfg strptime strftime date_str date_format = Inr date_str) \<and>
         normalize_date default_settings datetime_strptime datetime_strftime
           ''Feb 9, 1949'' (Some ''dd/mm/YYYY'') = Inr ''09/02/1949'' \<and>
         normalize_date default_settings datetime_strptime datetime_strftime
           ''a long time ago'' (Some ''dd/mm/YYYY'') = Inr ''a long time ago''"
proof -
  have "\<exists>parsed. try_formats strptime date_str formats = Inr parsed"
    using assms by (rule try_formats_returns)
  then obtain r where "try_formats strptime date_str formats = Inr r"
    by blast
  then have returns: "\<exists>out. normalize_date cfg strptime strftime date_str date_format = Inr out"
    by (cases r) (simp_all add: normalize_date_def Let_def)
  have first: "normalize_date cfg strptime strftime date_str date_format =
                 Inr (strftime parsed (to_py_format (or_str date_format (DATE_FORMAT cfg))))"
    if "formats = before @ fmt # after"
      and "\<forall>f \<in> set before. strptime date_str f = Inl ValueError"
      and "strptime date_str fmt = Inr parsed"
    for before fmt after parsed
  proof -
    from try_formats_first [where strptime = strptime and date_str = date_str and after = after,
            OF that(2,3)] that(1)
    have "try_formats strptime date_str formats = Inr (Some parsed)"
      by simp
    then show ?thesis
      by (simp add: normalize_date_def Let_def)
  qed
  have none: "normalize_date cfg strptime strftime date_str date_format = Inr date_str"
    if "\<forall>fmt \<in> set formats. strptime date_str fmt = Inl ValueError"
  proof -
    from try_formats_none [where strptime = strptime and date_str = date_str, OF that]
    show ?thesis
      by (simp add: normalize_date_def Let_def)
  qed
  have sentinel: "or_str (Some ''dd/mm/YYYY'') (DATE_FORMAT default_settings) = ''dd/mm/YYYY''"
    by (simp add: or_str_def)
  have "try_formats datetime_strptime ''Feb 9, 1949'' formats =
          Inr (Some \<lparr>year = 1949, month = 2, day = 9\<rparr>)"
    using try_formats_first
            [where strptime = datetime_strptime and date_str = "''Feb 9, 1949''"
               and after = "drop 10 formats", OF strptime_Feb_before strptime_Feb]
      formats_tenth by simp
  then have feb: "normalize_date default_settings datetime_strptime datetime_strftime
                    ''Feb 9, 1949'' (Some ''dd/mm/YYYY'') = Inr ''09/02/1949''"
    by (simp add: normalize_date_def Let_def sentinel to_py_format_default strftime_Feb
        del: datetime_strftime.simps)
  from try_formats_none
         [where strptime = datetime_strptime and date_str = "''a long time ago''",
          OF strptime_long_time_ago]
  have ago: "normalize_date default_settings datetime_strptime datetime_strftime
               ''a long time ago'' (Some ''dd/mm/YYYY'') = Inr ''a long time ago''"
    by (simp add: normalize_date_def Let_def)
  from returns first none feb ago show ?thesis
    by blast
qed

theorem normalize_date_first_format_witness:
  "formats = take 9 formats @ ''%b %d, %Y'' # drop 10 formats \<and>
   list_all (\<lambda>f. datetime_strptime ''Feb 9, 1949'' f = Inl ValueError) (take 9 formats) \<and>
   datetime_strptime ''Feb 9, 1949'' ''%b %d, %Y'' = Inr \<lparr>year = 1949, month = 2, day = 9\<rparr> \<and>
   normalize_date default_settings datetime_strptime datetime_strftime ''Feb 9, 1949'' None =
     Inr (datetime_strftime \<lparr>year = 1949, month = 2, day = 9\<rparr>
            (to_py_format (or_str None (DATE_FORMAT default_settings))))"
proof -
  have only: "\<forall>fmt \<in> set formats. \<forall>e. datetime_strptime ''Feb 9, 1949'' fmt = Inl e \<longrightarrow> e = ValueError"
    using datetime_strptime_raises by blast
  from normalize_date_first_format
         [where strptime = datetime_strptime and strftime = datetime_strftime
            and date_str = "''Feb 9, 1949''" and cfg = default_settings and date_format = None,
          OF only]
  have "\<forall>before fmt after parsed.
          formats = before @ fmt # after \<and>
          (\<forall>f \<in> set before. datetime_strptime ''Feb 9, 1949'' f = Inl ValueError) \<and>
          datetime_strptime ''Feb 9, 1949'' fmt = Inr parsed \<longrightarrow>
          normalize_date default_settings datetime_strptime datetime_strftime ''Feb 9, 1949'' None =
            Inr (datetime_strftime parsed (to_py_format (or_str None (DATE_FORMAT default_settings))))"
    by blast
  with formats_tenth strptime_Feb_before strptime_Feb
  have "normalize_date default_settings datetime_strptime datetime_strftime ''Feb 9, 1949'' None =
          Inr (datetime_strftime \<lparr>year = 1949, month = 2, day = 9\<rparr>
                 (to_py_format (or_str None (DATE_FORMAT default_settings))))"
    by blast
  with formats_tenth strptime_Feb_before strptime_Feb show ?thesis
    by (simp only: list_all_iff)
qed

end
